theory Spec2Isabelle
  imports Complex_Main
begin

section \<open>JavaScript values\<close>

text \<open>
  The front end is JavaScript. A JavaScript string is a sequence of UTF-16 code units,
  modelled as a list of naturals; \<open>lit\<close> embeds an ASCII literal of the source.
  Property names, storage keys and header names of the source are identifiers and are
  kept as HOL strings.

  A number is a rational or \<open>NaN\<close> (the infinities and the rounding of doubles play no
  part in the code modelled here). An object is an association list of its properties
  (a name is bound once; a lookup takes the first binding); reading a property that is
  absent gives \<open>undefined\<close>.
\<close>

type_synonym jsstring = "nat list"

definition lit :: "string \<Rightarrow> jsstring" where
  "lit s = map of_char s"

datatype jsval =
    JUndefined
  | JNull
  | JBool bool
  | JNum rat
  | JNaN
  | JStr jsstring
  | JArr "jsval list"
  | JObj "(string \<times> jsval) list"

type_synonym jsobj = "(string \<times> jsval) list"

text \<open>ToBoolean: the falsy values are undefined, null, false, 0, NaN and the empty string.\<close>

fun truthy :: "jsval \<Rightarrow> bool" where
  "truthy JUndefined = False"
| "truthy JNull = False"
| "truthy (JBool b) = b"
| "truthy (JNum x) = (x \<noteq> 0)"
| "truthy JNaN = False"
| "truthy (JStr s) = (s \<noteq> [])"
| "truthy (JArr xs) = True"
| "truthy (JObj kv) = True"

text \<open>\<open>a || b\<close>\<close>

definition js_or :: "jsval \<Rightarrow> jsval \<Rightarrow> jsval" where
  "js_or a b = (if truthy a then a else b)"

text \<open>\<open>obj.k\<close> on an object.\<close>

definition field :: "jsobj \<Rightarrow> string \<Rightarrow> jsval" where
  "field obj k = (case map_of obj k of None \<Rightarrow> JUndefined | Some v \<Rightarrow> v)"

text \<open>
  \<open>v.k\<close> on a value that is neither null nor undefined, for the property names the
  source reads (none of them is a built-in property of a primitive or of an array).
\<close>

fun getprop :: "jsval \<Rightarrow> string \<Rightarrow> jsval" where
  "getprop (JObj kv) k = field kv k"
| "getprop v k = JUndefined"

text \<open>\<open>v?.k\<close>\<close>

definition optchain :: "jsval \<Rightarrow> string \<Rightarrow> jsval" where
  "optchain v k = (if v = JUndefined \<or> v = JNull then JUndefined else getprop v k)"

section \<open>services/api.js\<close>

subsection \<open>The axios instance and its interceptors\<close>

datatype http_verb = GET | POST | DELETE

record request_config =
  url :: jsstring
  verb :: http_verb
  data :: jsval
  headers :: "string \<rightharpoonup> jsstring"

record http_response =
  status :: nat
  rdata :: jsval

text \<open>An axios error carries the response when the server answered, none otherwise.\<close>

record axios_error =
  response :: "http_response option"

record browser =
  localStorage :: "string \<rightharpoonup> jsstring"
  href :: jsstring

text \<open>The back end as the client sees it: \<open>None\<close> when it cannot be reached.\<close>

type_synonym server = "request_config \<Rightarrow> http_response option"

text \<open>\<open>axios.create\<close>: every request of the instance starts from these defaults.\<close>

definition api_config :: "http_verb \<Rightarrow> jsstring \<Rightarrow> jsval \<Rightarrow> request_config" where
  "api_config v u d =
     \<lparr>url = u, verb = v, data = d,
      headers = [''Content-Type'' \<mapsto> lit ''application/json'']\<rparr>"

text \<open>
  \<^verbatim>\<open>const token = localStorage.getItem('authToken');
  if (token) { config.headers.Authorization = `Bearer ${token}`; }
  return config;\<close>
\<close>

definition request_interceptor :: "browser \<Rightarrow> request_config \<Rightarrow> request_config" where
  "request_interceptor b config =
     (case localStorage b ''authToken'' of
        None \<Rightarrow> config
      | Some token \<Rightarrow>
          if token \<noteq> []
          then config\<lparr>headers := (headers config)(''Authorization'' \<mapsto> lit ''Bearer '' @ token)\<rparr>
          else config)"

text \<open>
  axios settles a request with its default \<open>validateStatus\<close> (the instance sets none):
  a status of 200 to 299 fulfils the promise, any other status and an unreachable
  server reject it.
\<close>

definition settle :: "http_response option \<Rightarrow> axios_error + http_response" where
  "settle r =
     (case r of
        None \<Rightarrow> Inl \<lparr>response = None\<rparr>
      | Some resp \<Rightarrow>
          if 200 \<le> status resp \<and> status resp < 300 then Inr resp
          else Inl \<lparr>response = Some resp\<rparr>)"

text \<open>
  \<^verbatim>\<open>(response) => response,
  (error) => {
    if (error.response?.status === 401) {
      localStorage.removeItem('authToken');
      localStorage.removeItem('userData');
      window.location.href = '/login';
    }
    return Promise.reject(error);
  }\<close>
\<close>

definition response_interceptor ::
    "browser \<Rightarrow> axios_error + http_response \<Rightarrow> browser \<times> (axios_error + http_response)" where
  "response_interceptor b res =
     (case res of
        Inr r \<Rightarrow> (b, Inr r)
      | Inl e \<Rightarrow>
          (if map_option status (response e) = Some 401
           then b\<lparr>localStorage := (localStorage b)(''authToken'' := None, ''userData'' := None),
                  href := lit ''/login''\<rparr>
           else b,
           Inl e))"

text \<open>
  One request through the instance: request interceptor, server, settle, response
  interceptor. The result is the browser, the settled response and the requests that
  went to the server.
\<close>

definition api_request ::
    "server \<Rightarrow> browser \<Rightarrow> request_config \<Rightarrow>
     browser \<times> (axios_error + http_response) \<times> request_config list" where
  "api_request srv b config =
     (let request = request_interceptor b config;
          (b', res) = response_interceptor b (settle (srv request))
      in (b', res, [request]))"

subsection \<open>queryAPI\<close>

text \<open>
  \<^verbatim>\<open>askQuestion: async (question, options = {}) => {
    const payload = {
      question,
      document_ids: options.documentIds,
      max_chunks: options.maxChunks || 5,
      temperature: options.temperature || 0.7,
    };
    const response = await api.post('/query/ask', payload);
    return response.data;
  }\<close>
  The options are an object, or omitted (\<open>None\<close>), in which case the default parameter
  \<open>{}\<close> applies.
\<close>

definition default_options :: "jsobj option \<Rightarrow> jsobj" where
  "default_options options = (case options of None \<Rightarrow> [] | Some obj \<Rightarrow> obj)"

definition askQuestion_payload :: "jsval \<Rightarrow> jsobj option \<Rightarrow> jsobj" where
  "askQuestion_payload question options =
     (let opts = default_options options in
      [(''question'', question),
       (''document_ids'', field opts ''documentIds''),
       (''max_chunks'', js_or (field opts ''maxChunks'') (JNum 5)),
       (''temperature'', js_or (field opts ''temperature'') (JNum (7 / 10)))])"

definition searchDocuments_payload :: "jsval \<Rightarrow> jsobj option \<Rightarrow> jsobj" where
  "searchDocuments_payload query options =
     (let opts = default_options options in
      [(''question'', query),
       (''document_ids'', field opts ''documentIds''),
       (''max_chunks'', js_or (field opts ''maxChunks'') (JNum 10))])"

text \<open>The request as it leaves the client, after the request interceptor has seen it.\<close>

definition askQuestion_request :: "browser \<Rightarrow> jsval \<Rightarrow> jsobj option \<Rightarrow> request_config" where
  "askQuestion_request b question options =
     request_interceptor b
       (api_config POST (lit ''/query/ask'') (JObj (askQuestion_payload question options)))"

definition searchDocuments_request :: "browser \<Rightarrow> jsval \<Rightarrow> jsobj option \<Rightarrow> request_config" where
  "searchDocuments_request b query options =
     request_interceptor b
       (api_config POST (lit ''/query/search'') (JObj (searchDocuments_payload query options)))"

text \<open>\<open>return response.data\<close>; a rejected request rejects the call.\<close>

definition response_data ::
    "browser \<times> (axios_error + http_response) \<times> request_config list \<Rightarrow>
     browser \<times> (axios_error + jsval) \<times> request_config list" where
  "response_data res =
     (case res of
        (b, Inl e, sent) \<Rightarrow> (b, Inl e, sent)
      | (b, Inr r, sent) \<Rightarrow> (b, Inr (rdata r), sent))"

definition askQuestion ::
    "server \<Rightarrow> browser \<Rightarrow> jsval \<Rightarrow> jsobj option \<Rightarrow>
     browser \<times> (axios_error + jsval) \<times> request_config list" where
  "askQuestion srv b question options =
     response_data (api_request srv b
       (api_config POST (lit ''/query/ask'') (JObj (askQuestion_payload question options))))"

definition searchDocuments ::
    "server \<Rightarrow> browser \<Rightarrow> jsval \<Rightarrow> jsobj option \<Rightarrow>
     browser \<times> (axios_error + jsval) \<times> request_config list" where
  "searchDocuments srv b query options =
     response_data (api_request srv b
       (api_config POST (lit ''/query/search'') (JObj (searchDocuments_payload query options))))"

section \<open>pages/AskPage.js\<close>

text \<open>
  \<open>String.prototype.trim\<close> removes the WhiteSpace and LineTerminator code units of
  ECMAScript from both ends.
\<close>

definition is_whitespace :: "nat \<Rightarrow> bool" where
  "is_whitespace c \<longleftrightarrow>
     c \<in> set [9, 10, 11, 12, 13, 32, 160, 5760, 8232, 8233, 8239, 8287, 12288, 65279] \<or>
     (8192 \<le> c \<and> c \<le> 8202)"

definition trim :: "jsstring \<Rightarrow> jsstring" where
  "trim s = rev (dropWhile is_whitespace (rev (dropWhile is_whitespace s)))"

datatype message_type = System | User | Assistant | Error

text \<open>
  A chat message. A property the object literal does not set reads as \<open>undefined\<close>;
  \<open>isThinking\<close> is only ever set to \<open>true\<close> and read through \<open>!msg.isThinking\<close>, so it
  is a boolean here.
\<close>

record message =
  type :: message_type
  content :: jsval
  timestamp :: jsstring
  isThinking :: bool
  sources :: jsval
  modelInfo :: jsval
  processingTime :: jsval

record settings =
  maxChunks :: jsval
  temperature :: jsval

record ask_page =
  messages :: "message list"
  currentQuestion :: jsstring
  loading :: bool
  error :: jsval
  settings :: settings

datatype js_error = TypeError

text \<open>The text of the placeholder message: a thinking-face emoji and the words after it.\<close>

definition thinking_text :: jsstring where
  "thinking_text = [55358, 56596] @ lit '' Searching through your documents...''"

definition userMessage :: "jsstring \<Rightarrow> jsstring \<Rightarrow> message" where
  "userMessage question t =
     \<lparr>type = User, content = JStr question, timestamp = t, isThinking = False,
      sources = JUndefined, modelInfo = JUndefined, processingTime = JUndefined\<rparr>"

definition thinkingMessage :: "jsstring \<Rightarrow> message" where
  "thinkingMessage t =
     \<lparr>type = Assistant, content = JStr thinking_text, timestamp = t, isThinking = True,
      sources = JUndefined, modelInfo = JUndefined, processingTime = JUndefined\<rparr>"

text \<open>
  \<^verbatim>\<open>const assistantMessage = {
    type: 'assistant',
    content: response.answer,
    sources: response.sources,
    modelInfo: response.model_info,
    processingTime: response.processing_time_ms,
    timestamp: new Date().toISOString(),
  };\<close>
  Reading a property of \<open>null\<close> or \<open>undefined\<close> throws.
\<close>

definition assistantMessage :: "jsval \<Rightarrow> jsstring \<Rightarrow> js_error + message" where
  "assistantMessage resp t =
     (if resp = JNull \<or> resp = JUndefined then Inl TypeError
      else Inr \<lparr>type = Assistant, content = getprop resp ''answer'', timestamp = t,
                isThinking = False, sources = getprop resp ''sources'',
                modelInfo = getprop resp ''model_info'',
                processingTime = getprop resp ''processing_time_ms''\<rparr>)"

text \<open>\<open>error.response?.data?.detail\<close>\<close>

definition error_detail :: "axios_error \<Rightarrow> jsval" where
  "error_detail e =
     (case response e of None \<Rightarrow> JUndefined | Some r \<Rightarrow> optchain (rdata r) ''detail'')"

definition errorMessage :: "axios_error \<Rightarrow> jsstring \<Rightarrow> message" where
  "errorMessage e t =
     \<lparr>type = Error,
      content = js_or (error_detail e)
        (JStr (lit ''Sorry, I encountered an error while processing your question.'')),
      timestamp = t, isThinking = False,
      sources = JUndefined, modelInfo = JUndefined, processingTime = JUndefined\<rparr>"

text \<open>
  The options object of the call in \<open>handleSubmit\<close>:
  \<^verbatim>\<open>const response = await queryAPI.askQuestion(question, {
    maxChunks: settings.maxChunks,
    temperature: settings.temperature,
  });\<close>
\<close>

definition submit_options :: "settings \<Rightarrow> jsobj option" where
  "submit_options cfg =
     Some [(''maxChunks'', maxChunks cfg), (''temperature'', temperature cfg)]"

text \<open>
  \<open>handleSubmit\<close>, from the submit event to the end of the \<open>finally\<close> block:
  \<^verbatim>\<open>e.preventDefault();
  if (!currentQuestion.trim() || loading) return;
  const question = currentQuestion.trim();
  setCurrentQuestion('');
  setError('');
  setMessages(prev => [...prev, userMessage]);
  try {
    setLoading(true);
    setMessages(prev => [...prev, thinkingMessage]);
    const response = await queryAPI.askQuestion(question, {...});
    setMessages(prev => [...prev.filter(msg => !msg.isThinking), assistantMessage]);
  } catch (error) {
    setError(error.response?.data?.detail || 'Failed to get answer');
    setMessages(prev => [...prev.filter(msg => !msg.isThinking), errorMessage]);
  } finally {
    setLoading(false);
  }\<close>
  \<open>now i\<close> is what the \<open>i\<close>-th \<open>new Date().toISOString()\<close> of the handler returns. The
  result is the page, the browser, and the requests that went to the server (those of
  its one call of \<open>askQuestion\<close>, none when it returns early); it is a \<open>TypeError\<close> when
  the response body is \<open>null\<close>, on which the state updater throws. Events that arrive
  while the request is awaited are not modelled.
\<close>

definition handleSubmit ::
    "server \<Rightarrow> (nat \<Rightarrow> jsstring) \<Rightarrow> browser \<Rightarrow> ask_page \<Rightarrow>
     js_error + (ask_page \<times> browser \<times> request_config list)" where
  "handleSubmit srv now b st =
     (if trim (currentQuestion st) = [] \<or> loading st then Inr (st, b, [])
      else
        let question = trim (currentQuestion st);
            st1 = st\<lparr>currentQuestion := [], error := JStr [],
                     messages := messages st @ [userMessage question (now 0)]\<rparr>;
            st2 = st1\<lparr>loading := True,
                      messages := messages st1 @ [thinkingMessage (now 1)]\<rparr>;
            options = submit_options (settings st);
            withoutThinking = filter (\<lambda>msg. \<not> isThinking msg) (messages st2)
        in case askQuestion srv b (JStr question) options of
             (b', Inr resp, sent) \<Rightarrow>
               (case assistantMessage resp (now 2) of
                  Inl err \<Rightarrow> Inl err
                | Inr m \<Rightarrow>
                    Inr (st2\<lparr>messages := withoutThinking @ [m], loading := False\<rparr>, b', sent))
           | (b', Inl e, sent) \<Rightarrow>
               Inr (st2\<lparr>error := js_or (error_detail e) (JStr (lit ''Failed to get answer'')),
                         messages := withoutThinking @ [errorMessage e (now 2)],
                         loading := False\<rparr>,
                    b', sent))"

text \<open>
  ToNumber, for the comparisons of the views. The conversion of strings, arrays and
  objects (ToPrimitive and the string grammar) is left to the parameter \<open>cn\<close>; \<open>None\<close>
  is \<open>NaN\<close>.
\<close>

fun toNumber :: "(jsval \<Rightarrow> rat option) \<Rightarrow> jsval \<Rightarrow> rat option" where
  "toNumber cn JUndefined = None"
| "toNumber cn JNull = Some 0"
| "toNumber cn (JBool b) = Some (if b then 1 else 0)"
| "toNumber cn (JNum x) = Some x"
| "toNumber cn JNaN = None"
| "toNumber cn v = cn v"

text \<open>\<open>v >= 0\<close>: false when \<open>v\<close> converts to \<open>NaN\<close>.\<close>

definition js_ge0 :: "(jsval \<Rightarrow> rat option) \<Rightarrow> jsval \<Rightarrow> bool" where
  "js_ge0 cn v = (case toNumber cn v of None \<Rightarrow> False | Some x \<Rightarrow> 0 \<le> x)"

text \<open>\<open>v.length\<close> of a value that is neither null nor undefined.\<close>

fun js_length :: "jsval \<Rightarrow> jsval" where
  "js_length (JArr xs) = JNum (of_nat (length xs))"
| "js_length (JStr s) = JNum (of_nat (length s))"
| "js_length v = getprop v ''length''"

text \<open>
  What React makes of a child \<open>{v}\<close>: a string or a number becomes text (an empty
  string shows nothing), \<open>true\<close>, \<open>false\<close>, \<open>null\<close> and \<open>undefined\<close> show nothing, an
  array shows its elements in order, and an object throws (``Objects are not valid as a
  React child''). The result is the list of texts shown, or the failure of the render.
  The sources hold no error boundary, so a render that throws takes the page off the
  screen.
\<close>

datatype render_failure = RenderThrows

fun react_child :: "jsval \<Rightarrow> render_failure + jsval list"
  and react_children :: "jsval list \<Rightarrow> render_failure + jsval list" where
  "react_child JUndefined = Inr []"
| "react_child JNull = Inr []"
| "react_child (JBool b) = Inr []"
| "react_child (JNum x) = Inr [JNum x]"
| "react_child JNaN = Inr [JNaN]"
| "react_child (JStr s) = Inr (if s = [] then [] else [JStr s])"
| "react_child (JArr xs) = react_children xs"
| "react_child (JObj kv) = Inl RenderThrows"
| "react_children [] = Inr []"
| "react_children (x # xs) =
     (case react_child x of
        Inl e \<Rightarrow> Inl e
      | Inr shown \<Rightarrow>
          (case react_children xs of Inl e \<Rightarrow> Inl e | Inr rest \<Rightarrow> Inr (shown @ rest)))"

text \<open>
  \<open>v > 0\<close>. The comparison converts \<open>v\<close> to a number; for a string, an array or an
  object that conversion (ToPrimitive and the string grammar) is left to the parameter
  \<open>cmp\<close>, which gives \<open>None\<close> when it throws.
\<close>

definition gt0 :: "(jsval \<Rightarrow> bool option) \<Rightarrow> jsval \<Rightarrow> bool option" where
  "gt0 cmp v =
     (case v of
        JUndefined \<Rightarrow> Some False
      | JNull \<Rightarrow> Some False
      | JBool b \<Rightarrow> Some b
      | JNum x \<Rightarrow> Some (0 < x)
      | JNaN \<Rightarrow> Some False
      | other \<Rightarrow> cmp other)"

text \<open>
  A slot of the form \<open>{v && (<box>...</box>)}\<close>: when \<open>v\<close> is falsy the child is \<open>v\<close>
  itself (so 0 and NaN show as text), otherwise the box.
\<close>

datatype 'a slot = Bare "jsval list" | Box 'a

text \<open>
  One card of the Sources block:
  \<^verbatim>\<open><span>Document {source.document_id}</span>
  <span>{(source.similarity_score * 100).toFixed(1)}% match</span>
  <p>"{source.snippet}"</p>\<close>
  Reading a property of a \<open>null\<close> source throws. \<open>fmt\<close> is the formatting of the score,
  \<open>None\<close> when the multiplication throws.
\<close>

record source_card =
  document_shown :: "jsval list"
  match_shown :: jsstring
  snippet_shown :: "jsval list"

definition renderSource :: "(jsval \<Rightarrow> jsstring option) \<Rightarrow> jsval \<Rightarrow> render_failure + source_card" where
  "renderSource fmt source =
     (if source = JNull \<or> source = JUndefined then Inl RenderThrows
      else case fmt (getprop source ''similarity_score'') of
             None \<Rightarrow> Inl RenderThrows
           | Some pct \<Rightarrow>
               (case react_child (getprop source ''document_id'') of
                  Inl e \<Rightarrow> Inl e
                | Inr doc \<Rightarrow>
                    (case react_child (getprop source ''snippet'') of
                       Inl e \<Rightarrow> Inl e
                     | Inr snip \<Rightarrow>
                         Inr \<lparr>document_shown = doc, match_shown = pct, snippet_shown = snip\<rparr>)))"

fun renderSources :: "(jsval \<Rightarrow> jsstring option) \<Rightarrow> jsval list \<Rightarrow> render_failure + source_card list" where
  "renderSources fmt [] = Inr []"
| "renderSources fmt (x # xs) =
     (case renderSource fmt x of
        Inl e \<Rightarrow> Inl e
      | Inr c \<Rightarrow>
          (case renderSources fmt xs of Inl e \<Rightarrow> Inl e | Inr cs \<Rightarrow> Inr (c # cs)))"

text \<open>
  The Sources slot of an assistant bubble:
  \<^verbatim>\<open>{message.sources && message.sources.length > 0 && (
    ... {message.sources.map((source, i) => (...))} ...
  )}\<close>
  Of the values a response body can hold only an array has a \<open>map\<close>; on any other value
  that is truthy and has a positive length the call throws.
\<close>

definition sources_slot ::
    "(jsval \<Rightarrow> bool option) \<Rightarrow> (jsval \<Rightarrow> jsstring option) \<Rightarrow> jsval \<Rightarrow>
     render_failure + source_card list slot" where
  "sources_slot cmp fmt v =
     (if \<not> truthy v then
        (case react_child v of Inl e \<Rightarrow> Inl e | Inr shown \<Rightarrow> Inr (Bare shown))
      else case gt0 cmp (js_length v) of
             None \<Rightarrow> Inl RenderThrows
           | Some False \<Rightarrow> Inr (Bare [])
           | Some True \<Rightarrow>
               (case v of
                  JArr xs \<Rightarrow>
                    (case renderSources fmt xs of Inl e \<Rightarrow> Inl e | Inr cards \<Rightarrow> Inr (Box cards))
                | other \<Rightarrow> Inl RenderThrows))"

text \<open>
  The processing-time slot of an assistant bubble:
  \<open>{message.processingTime && (<span>{message.processingTime}ms</span>)}\<close>.
\<close>

definition time_slot :: "jsval \<Rightarrow> render_failure + jsval list slot" where
  "time_slot v =
     (case react_child v of
        Inl e \<Rightarrow> Inl e
      | Inr shown \<Rightarrow> Inr (if truthy v then Box (shown @ [JStr (lit ''ms'')]) else Bare shown))"

text \<open>
  \<open>renderMessage\<close>: the bubble of a message, by its type. Every bubble shows
  \<open>{message.content}\<close>; only the \<open>assistant\<close> case has a Sources slot and a
  processing-time slot. The time of day that the user, assistant and error bubbles
  also show (\<open>formatTime\<close>) is left out.
\<close>

datatype bubble =
    SystemBubble "jsval list"
  | UserBubble "jsval list"
  | AssistantBubble "jsval list" "source_card list slot" "jsval list slot"
  | ErrorBubble "jsval list"

definition renderMessage ::
    "(jsval \<Rightarrow> bool option) \<Rightarrow> (jsval \<Rightarrow> jsstring option) \<Rightarrow> message \<Rightarrow>
     render_failure + bubble" where
  "renderMessage cmp fmt m =
     (case react_child (content m) of
        Inl e \<Rightarrow> Inl e
      | Inr shown \<Rightarrow>
          (case type m of
             System \<Rightarrow> Inr (SystemBubble shown)
           | User \<Rightarrow> Inr (UserBubble shown)
           | Assistant \<Rightarrow>
               (case sources_slot cmp fmt (sources m) of
                  Inl e \<Rightarrow> Inl e
                | Inr srcs \<Rightarrow>
                    (case time_slot (processingTime m) of
                       Inl e \<Rightarrow> Inl e
                     | Inr ms \<Rightarrow> Inr (AssistantBubble shown srcs ms)))
           | Error \<Rightarrow> Inr (ErrorBubble shown)))"

fun renderMessages ::
    "(jsval \<Rightarrow> bool option) \<Rightarrow> (jsval \<Rightarrow> jsstring option) \<Rightarrow> message list \<Rightarrow>
     render_failure + bubble list" where
  "renderMessages cmp fmt [] = Inr []"
| "renderMessages cmp fmt (m # ms) =
     (case renderMessage cmp fmt m of
        Inl e \<Rightarrow> Inl e
      | Inr bub \<Rightarrow>
          (case renderMessages cmp fmt ms of Inl e \<Rightarrow> Inl e | Inr bubs \<Rightarrow> Inr (bub # bubs)))"

text \<open>
  The chat page on the screen: the bubbles of \<open>messages.map(renderMessage)\<close> and, under
  the input form, the error banner \<open>{error && (<div ...>{error}</div>)}\<close>. The header, the
  settings panel and the form show no value that a response can set and are left out.
  The page is on the screen only if every part renders.
\<close>

record ask_view =
  bubbles :: "bubble list"
  banner :: "jsval list slot"

definition error_banner :: "ask_page \<Rightarrow> render_failure + jsval list slot" where
  "error_banner st =
     (case react_child (error st) of
        Inl e \<Rightarrow> Inl e
      | Inr shown \<Rightarrow> Inr (if truthy (error st) then Box shown else Bare shown))"

definition render_ask_page ::
    "(jsval \<Rightarrow> bool option) \<Rightarrow> (jsval \<Rightarrow> jsstring option) \<Rightarrow> ask_page \<Rightarrow>
     render_failure + ask_view" where
  "render_ask_page cmp fmt st =
     (case renderMessages cmp fmt (messages st) of
        Inl e \<Rightarrow> Inl e
      | Inr bubs \<Rightarrow>
          (case error_banner st of
             Inl e \<Rightarrow> Inl e
           | Inr ban \<Rightarrow> Inr \<lparr>bubbles = bubs, banner = ban\<rparr>))"

section \<open>The single-question Ask page (handleAsk)\<close>

text \<open>
  A second Ask page of the repository, with one question, one answer and one list of
  references. It posts with the global axios (no interceptor).
  \<^verbatim>\<open>try {
    const res = await axios.post("/query/ask", { question },
      { headers: { Authorization: `Bearer <JWT>` } });
    setAnswer(res.data.answer);
    setReferences(res.data.references || []);
  } catch (err) {
    setAnswer("Error getting answer.");
    setReferences([]);
  }\<close>
  A body that is \<open>null\<close> makes \<open>res.data.answer\<close> throw inside the \<open>try\<close>, before any
  state is set, and ends in the \<open>catch\<close> as a rejected request does.
\<close>

record simple_ask_page =
  question :: jsstring
  answer :: jsval
  references :: jsval

definition handleAsk_request :: "jsstring \<Rightarrow> request_config" where
  "handleAsk_request q =
     \<lparr>url = lit ''/query/ask'', verb = POST, data = JObj [(''question'', JStr q)],
      headers = [''Authorization'' \<mapsto> lit ''Bearer <JWT>'']\<rparr>"

text \<open>\<open>axios.post\<close> of the global axios: the settled response and the request that went out.\<close>

definition axios_post ::
    "server \<Rightarrow> request_config \<Rightarrow> (axios_error + http_response) \<times> request_config list" where
  "axios_post srv request = (settle (srv request), [request])"

definition handleAsk :: "server \<Rightarrow> simple_ask_page \<Rightarrow> simple_ask_page \<times> request_config list" where
  "handleAsk srv st =
     (let failed = st\<lparr>answer := JStr (lit ''Error getting answer.''), references := JArr []\<rparr>
      in case axios_post srv (handleAsk_request (question st)) of
           (Inl e, sent) \<Rightarrow> (failed, sent)
         | (Inr res, sent) \<Rightarrow>
             if rdata res = JNull \<or> rdata res = JUndefined then (failed, sent)
             else (st\<lparr>answer := getprop (rdata res) ''answer'',
                      references := js_or (getprop (rdata res) ''references'') (JArr [])\<rparr>,
                   sent))"

section \<open>pages/UploadPage.js\<close>

text \<open>A \<open>File\<close> of the browser: its name, its content type and its size in bytes.\<close>

record js_file =
  file_name :: jsstring
  file_type :: jsstring
  file_size :: nat

record upload_page =
  documents :: jsval
  uploading :: bool
  uploadProgress :: nat
  dragOver :: bool
  loading :: bool
  error :: jsval
  success :: jsval

text \<open>
  \<open>filesAPI.uploadPDF\<close>: the file goes as the \<open>file\<close> entry of a multipart form; the form
  is written as an object that holds the file's metadata.
\<close>

definition uploadPDF_config :: "js_file \<Rightarrow> request_config" where
  "uploadPDF_config f =
     (let c = api_config POST (lit ''/files/upload'')
                (JObj [(''file'', JObj [(''name'', JStr (file_name f)),
                                        (''type'', JStr (file_type f)),
                                        (''size'', JNum (of_nat (file_size f)))])])
      in c\<lparr>headers := (headers c)(''Content-Type'' \<mapsto> lit ''multipart/form-data'')\<rparr>)"

definition uploadPDF ::
    "server \<Rightarrow> browser \<Rightarrow> js_file \<Rightarrow> browser \<times> (axios_error + jsval) \<times> request_config list" where
  "uploadPDF srv b f = response_data (api_request srv b (uploadPDF_config f))"

text \<open>
  The success message, a template literal; \<open>str\<close> is the ToString of the two values it
  embeds.
\<close>

definition success_text :: "(jsval \<Rightarrow> jsstring) \<Rightarrow> jsval \<Rightarrow> jsstring" where
  "success_text str resp =
     lit ''File \"'' @ str (getprop resp ''filename'') @
     lit ''\" uploaded successfully! Generated '' @ str (getprop resp ''chunks_created'') @
     lit '' text chunks.''"

text \<open>
  \<^verbatim>\<open>const handleFileUpload = async (file) => {
    if (!file) return;
    if (file.type !== 'application/pdf') { setError('Please select a PDF file'); return; }
    if (file.size > 50 * 1024 * 1024) { setError('File size must be less than 50MB'); return; }
    try {
      setUploading(true); setError(''); setSuccess(''); setUploadProgress(0);
      const response = await filesAPI.uploadPDF(file, ...);
      setSuccess(`File "${response.filename}" uploaded successfully! ...`);
      setUploadProgress(100);
      setTimeout(...);
    } catch (error) {
      setError(error.response?.data?.detail || 'Upload failed');
      setUploadProgress(0);
    } finally { setUploading(false); }
  };\<close>
  The model runs to the end of the \<open>finally\<close> block; the progress events during the
  transfer and the timer that reloads the document list one second later are left out.
  A \<open>null\<close> body makes the template literal throw a \<open>TypeError\<close>, which has no
  \<open>response\<close>, so the \<open>catch\<close> shows \<open>Upload failed\<close>.
\<close>

definition handleFileUpload ::
    "server \<Rightarrow> (jsval \<Rightarrow> jsstring) \<Rightarrow> browser \<Rightarrow> js_file option \<Rightarrow> upload_page \<Rightarrow>
     upload_page \<times> browser \<times> request_config list" where
  "handleFileUpload srv str b file st =
     (case file of
        None \<Rightarrow> (st, b, [])
      | Some f \<Rightarrow>
          if file_type f \<noteq> lit ''application/pdf''
          then (st\<lparr>error := JStr (lit ''Please select a PDF file'')\<rparr>, b, [])
          else if file_size f > 50 * 1024 * 1024
          then (st\<lparr>error := JStr (lit ''File size must be less than 50MB'')\<rparr>, b, [])
          else
            let st1 = st\<lparr>uploading := True, error := JStr [], success := JStr [],
                         uploadProgress := 0\<rparr>
            in (case uploadPDF srv b f of
                  (b', Inr resp, sent) \<Rightarrow>
                    if resp = JNull \<or> resp = JUndefined
                    then (st1\<lparr>error := JStr (lit ''Upload failed''), uploadProgress := 0,
                               uploading := False\<rparr>, b', sent)
                    else (st1\<lparr>success := JStr (success_text str resp), uploadProgress := 100,
                               uploading := False\<rparr>, b', sent)
                | (b', Inl e, sent) \<Rightarrow>
                    (st1\<lparr>error := js_or (error_detail e) (JStr (lit ''Upload failed'')),
                         uploadProgress := 0, uploading := False\<rparr>, b', sent)))"

text \<open>
  \<open>handleFileSelect\<close> takes the first file of the input element; \<open>handleDrop\<close> takes the
  first dropped file whose type is \<open>application/pdf\<close>.
\<close>

definition handleFileSelect ::
    "server \<Rightarrow> (jsval \<Rightarrow> jsstring) \<Rightarrow> browser \<Rightarrow> js_file list \<Rightarrow> upload_page \<Rightarrow>
     upload_page \<times> browser \<times> request_config list" where
  "handleFileSelect srv str b files st =
     (case files of [] \<Rightarrow> (st, b, []) | f # rest \<Rightarrow> handleFileUpload srv str b (Some f) st)"

definition handleDrop ::
    "server \<Rightarrow> (jsval \<Rightarrow> jsstring) \<Rightarrow> browser \<Rightarrow> js_file list \<Rightarrow> upload_page \<Rightarrow>
     upload_page \<times> browser \<times> request_config list" where
  "handleDrop srv str b files st =
     (case find (\<lambda>f. file_type f = lit ''application/pdf'') files of
        Some pdfFile \<Rightarrow> handleFileUpload srv str b (Some pdfFile) (st\<lparr>dragOver := False\<rparr>)
      | None \<Rightarrow> (st\<lparr>dragOver := False, error := JStr (lit ''Please drop a PDF file'')\<rparr>, b, []))"

section \<open>pages/DashboardPage.js\<close>

record dashboard_page =
  stats :: jsval
  recentDocuments :: jsval
  loading :: bool
  healthStatus :: jsval

text \<open>\<open>documentsResponse.value.documents.slice(0, 5)\<close>: only arrays and strings have a \<open>slice\<close>.\<close>

definition first_five_documents :: "jsval \<Rightarrow> js_error + jsval" where
  "first_five_documents v =
     (if v = JNull \<or> v = JUndefined then Inl TypeError
      else case getprop v ''documents'' of
             JArr xs \<Rightarrow> Inr (JArr (take 5 xs))
           | JStr s \<Rightarrow> Inr (JStr (take 5 s))
           | other \<Rightarrow> Inl TypeError)"

text \<open>
  \<open>loadDashboardData\<close>, given how the three requests settled: \<open>GET /files/stats\<close>,
  \<open>GET /files/documents\<close> and \<open>GET /query/health\<close> (whose rejection is replaced by
  \<open>null\<close>). A \<open>TypeError\<close> in the documents step skips the health step; the \<open>finally\<close>
  block clears \<open>loading\<close> in every case.
\<close>

definition loadDashboardData ::
    "axios_error + jsval \<Rightarrow> axios_error + jsval \<Rightarrow> axios_error + jsval \<Rightarrow>
     dashboard_page \<Rightarrow> dashboard_page" where
  "loadDashboardData statsResponse documentsResponse healthResponse st =
     (let st1 = st\<lparr>loading := True\<rparr>;
          st2 = (case statsResponse of Inr v \<Rightarrow> st1\<lparr>stats := v\<rparr> | Inl e \<Rightarrow> st1);
          health = (case healthResponse of Inr v \<Rightarrow> v | Inl e \<Rightarrow> JNull);
          set_health = (\<lambda>s. if truthy health then s\<lparr>healthStatus := health\<rparr> else s)
      in case documentsResponse of
           Inl e \<Rightarrow> (set_health st2)\<lparr>loading := False\<rparr>
         | Inr v \<Rightarrow>
             (case first_five_documents v of
                Inl err \<Rightarrow> st2\<lparr>loading := False\<rparr>
              | Inr docs \<Rightarrow> (set_health (st2\<lparr>recentDocuments := docs\<rparr>))\<lparr>loading := False\<rparr>))"

text \<open>
  The Stats Grid, rendered under \<open>{stats && (...)}\<close> once the page is not loading: the
  four figures, named after their captions.
  \<^verbatim>\<open>{stats.total_documents}
  {stats.total_file_size_mb} MB
  {stats.total_chunks}
  {stats.documents_by_status?.completed || 0}\<close>
\<close>

record stats_grid =
  total_documents_shown :: jsval
  storage_used_shown :: jsval
  text_chunks_shown :: jsval
  processed_shown :: jsval

definition render_stats :: "dashboard_page \<Rightarrow> stats_grid option" where
  "render_stats st =
     (if loading st \<or> \<not> truthy (stats st) then None
      else Some
        \<lparr>total_documents_shown = getprop (stats st) ''total_documents'',
         storage_used_shown = getprop (stats st) ''total_file_size_mb'',
         text_chunks_shown = getprop (stats st) ''total_chunks'',
         processed_shown =
           js_or (optchain (getprop (stats st) ''documents_by_status'') ''completed'') (JNum 0)\<rparr>)"

text \<open>
  The System Status panel, rendered under \<open>{healthStatus && (...)}\<close>: whether each of the
  three dots is green.
  \<^verbatim>\<open>healthStatus.embedding_service?.working
  healthStatus.llm_service?.available
  healthStatus.vector_store?.total_chunks >= 0\<close>
\<close>

record system_status =
  embedding_service_green :: bool
  llm_service_green :: bool
  vector_database_green :: bool

definition render_health :: "(jsval \<Rightarrow> rat option) \<Rightarrow> dashboard_page \<Rightarrow> system_status option" where
  "render_health cn st =
     (if loading st \<or> \<not> truthy (healthStatus st) then None
      else Some
        \<lparr>embedding_service_green =
           truthy (optchain (getprop (healthStatus st) ''embedding_service'') ''working''),
         llm_service_green =
           truthy (optchain (getprop (healthStatus st) ''llm_service'') ''available''),
         vector_database_green =
           js_ge0 cn (optchain (getprop (healthStatus st) ''vector_store'') ''total_chunks'')\<rparr>)"

section \<open>The Vector Index\<close>

text \<open>
  The front end reaches the index only through \<open>POST /query/ask\<close> and
  \<open>POST /query/search\<close>; the back end's \<open>services/vector_store.py\<close> is not among the
  sources. The index is therefore written down from sections 3, 4.4 and 4.8 of the
  specification.
\<close>

text \<open>
  Modelled from the spec: the Chunk record of section 3 (the back end's chunk store is
  missing): \<open>{id, document_id, owner_id, sequence_index, text, char_start, char_end,
  embedding_vector}\<close>.
\<close>

record chunk =
  chunk_id :: nat
  document_id :: nat
  owner_id :: nat
  sequence_index :: nat
  chunk_text :: jsstring
  char_start :: nat
  char_end :: nat
  embedding_vector :: "real list"

text \<open>
  Modelled from the spec: the index's storage (missing: \<open>vector_store.py\<close>), the chunks
  in the order they were first stored.
\<close>

type_synonym vector_index = "chunk list"

text \<open>
  Modelled from the spec: \<open>upsert(chunk_id, vector, metadata)\<close> (missing:
  \<open>vector_store.py\<close>), idempotent by \<open>chunk_id\<close>: a chunk whose id is stored replaces the
  stored one, any other chunk is added.
\<close>

fun upsert :: "vector_index \<Rightarrow> chunk \<Rightarrow> vector_index" where
  "upsert [] c = [c]"
| "upsert (d # idx) c = (if chunk_id d = chunk_id c then c # idx else d # upsert idx c)"

text \<open>
  Modelled from the spec: \<open>delete_by_document(document_id)\<close> (missing:
  \<open>vector_store.py\<close>) removes all chunks of a document.
\<close>

definition delete_by_document :: "vector_index \<Rightarrow> nat \<Rightarrow> vector_index" where
  "delete_by_document idx d = filter (\<lambda>c. document_id c \<noteq> d) idx"

text \<open>
  Modelled from the spec: the inner product of two vectors (missing:
  \<open>vector_store.py\<close>), for the ``cosine similarity (or equivalent normalized inner
  product)'' of \<open>query\<close>.
\<close>

definition dot :: "real list \<Rightarrow> real list \<Rightarrow> real" where
  "dot u v = sum_list (map (\<lambda>(x, y). x * y) (zip u v))"

text \<open>
  Modelled from the spec: the similarity metric of \<open>query\<close> (missing: \<open>vector_store.py\<close>),
  cosine similarity. The spec says nothing about a vector of norm 0; its score is 0 here.
\<close>

definition cosine :: "real list \<Rightarrow> real list \<Rightarrow> real" where
  "cosine u v =
     (if dot u u = 0 \<or> dot v v = 0 then 0 else dot u v / (sqrt (dot u u) * sqrt (dot v v)))"

text \<open>
  Modelled from the spec: the order of the ranking of \<open>query\<close> (missing:
  \<open>vector_store.py\<close>): by descending score, ``ties broken by ascending chunk_id for
  determinism''.
\<close>

definition ranks_before :: "nat \<times> real \<Rightarrow> nat \<times> real \<Rightarrow> bool" where
  "ranks_before a b \<longleftrightarrow> snd b < snd a \<or> (snd a = snd b \<and> fst a \<le> fst b)"

text \<open>
  Modelled from the spec: the ``ranked sequence'' of \<open>query\<close> (missing:
  \<open>vector_store.py\<close>), built by inserting each result in its place.
\<close>

fun place :: "nat \<times> real \<Rightarrow> (nat \<times> real) list \<Rightarrow> (nat \<times> real) list" where
  "place a [] = [a]"
| "place a (b # bs) = (if ranks_before a b then a # b # bs else b # place a bs)"

text \<open>
  Modelled from the spec: the ``ranked sequence'' of \<open>query\<close> (missing:
  \<open>vector_store.py\<close>), all results in ranking order.
\<close>

fun ranked :: "(nat \<times> real) list \<Rightarrow> (nat \<times> real) list" where
  "ranked [] = []"
| "ranked (a # as) = place a (ranked as)"

text \<open>
  Modelled from the spec: the documents of an owner as the index knows them (missing:
  \<open>vector_store.py\<close>): the index ``stores (vector, chunk metadata) per owner/document'',
  so an owner's documents are those that hold a chunk of that owner.
\<close>

definition documents_of :: "vector_index \<Rightarrow> nat \<Rightarrow> nat list" where
  "documents_of idx owner = map document_id (filter (\<lambda>c. owner_id c = owner) idx)"

text \<open>
  Modelled from the spec: the validation of \<open>document_ids\<close> (missing:
  \<open>vector_store.py\<close>): ``the index validates document ownership before filtering, not
  after''. Of the ids supplied, only the owner's own documents are kept.
\<close>

definition validated :: "vector_index \<Rightarrow> nat \<Rightarrow> nat list \<Rightarrow> nat list" where
  "validated idx owner document_ids = filter (\<lambda>d. d \<in> set (documents_of idx owner)) document_ids"

text \<open>
  Modelled from the spec: the chunks a \<open>query\<close> ranks (missing: \<open>vector_store.py\<close>),
  ``scoped by owner (mandatory) and document-id set (optional filter)''; ``an
  empty/absent filter searches all of the caller's'' documents. The owner scope comes
  first, and the filter uses the validated ids.
\<close>

definition candidates :: "vector_index \<Rightarrow> nat \<Rightarrow> nat list option \<Rightarrow> chunk list" where
  "candidates idx owner document_ids =
     (let own = filter (\<lambda>c. owner_id c = owner) idx in
      case document_ids of
        None \<Rightarrow> own
      | Some ds \<Rightarrow>
          if ds = [] then own
          else filter (\<lambda>c. document_id c \<in> set (validated idx owner ds)) own)"

text \<open>
  Modelled from the spec: \<open>query(vector, owner_id, document_ids?, k)\<close> (missing:
  \<open>vector_store.py\<close>) gives the ``ranked sequence of (chunk_id, score)'' and ``returns
  fewer than k results if fewer candidates exist''.
\<close>

definition query ::
    "vector_index \<Rightarrow> real list \<Rightarrow> nat \<Rightarrow> nat list option \<Rightarrow> nat \<Rightarrow> (nat \<times> real) list" where
  "query idx v owner document_ids k =
     take k (ranked (map (\<lambda>c. (chunk_id c, cosine v (embedding_vector c)))
                         (candidates idx owner document_ids)))"

text \<open>
  Modelled from the spec: the index invariant that \<open>upsert\<close> keeps (missing:
  \<open>vector_store.py\<close>): no two stored chunks share an id.
\<close>

definition well_formed :: "vector_index \<Rightarrow> bool" where
  "well_formed idx = distinct (map chunk_id idx)"

section \<open>Example inputs\<close>

text \<open>
  Two owners with the same passage: owner 2's copy points the way of the query vector
  \<open>[1, 0]\<close>, owner 1's copy is orthogonal to it.
\<close>

definition chunk_a :: chunk where
  "chunk_a = \<lparr>chunk_id = 10, document_id = 100, owner_id = 1, sequence_index = 0,
              chunk_text = lit ''The sprint goal is X.'', char_start = 0, char_end = 21,
              embedding_vector = [0, 1]\<rparr>"

definition chunk_b :: chunk where
  "chunk_b = \<lparr>chunk_id = 20, document_id = 200, owner_id = 2, sequence_index = 0,
              chunk_text = lit ''The sprint goal is X.'', char_start = 0, char_end = 21,
              embedding_vector = [1, 0]\<rparr>"

definition two_owner_index :: vector_index where
  "two_owner_index = upsert (upsert [] chunk_a) chunk_b"

text \<open>A browser that holds both credentials, a server that cannot be reached, and a clock.\<close>

definition signed_in :: browser where
  "signed_in = \<lparr>localStorage = [''authToken'' \<mapsto> lit ''t0k'', ''userData'' \<mapsto> lit ''u''],
                href = lit ''/ask''\<rparr>"

definition unreachable :: server where
  "unreachable = (\<lambda>c. None)"

definition clock :: "nat \<Rightarrow> jsstring" where
  "clock i = lit ''2024-05-01T10:00:00.000Z''"

text \<open>A server that answers every request with status 200 and the given body.\<close>

definition answering :: "jsval \<Rightarrow> server" where
  "answering body = (\<lambda>c. Some \<lparr>status = 200, rdata = body\<rparr>)"

text \<open>
  A server that rejects the request body, as FastAPI does: status 422 and a \<open>detail\<close>
  that is a list of error records.
\<close>

definition validation_detail :: jsval where
  "validation_detail =
     JArr [JObj [(''loc'', JArr [JStr (lit ''body''), JStr (lit ''question'')]),
                 (''msg'', JStr (lit ''ensure this value has at most 1000 characters'')),
                 (''type'', JStr (lit ''value_error.any_str.max_length''))]]"

definition rejecting :: server where
  "rejecting = (\<lambda>c. Some \<lparr>status = 422, rdata = JObj [(''detail'', validation_detail)]\<rparr>)"

text \<open>The chat page with an empty conversation, the initial settings and a typed question.\<close>

definition page_with :: "jsstring \<Rightarrow> ask_page" where
  "page_with q =
     \<lparr>messages = [], currentQuestion = q, ask_page.loading = False, ask_page.error = JStr [],
      settings = \<lparr>maxChunks = JNum 5, temperature = JNum (7 / 10)\<rparr>\<rparr>"

text \<open>
  An answer with the field names of the specification's AnswerResult, and one with the
  field names the chat page reads.
\<close>

definition spec_answer :: jsval where
  "spec_answer =
     JObj [(''answer_text'', JStr (lit ''The sprint goal is X.'')),
           (''sources'', JArr []),
           (''model_info'', JStr (lit ''llama2'')),
           (''processing_time_ms'', JNum 840)]"

definition backend_answer :: jsval where
  "backend_answer =
     JObj [(''answer'', JStr (lit ''The sprint goal is X.'')),
           (''sources'', JArr []),
           (''model_info'', JStr (lit ''llama2'')),
           (''processing_time_ms'', JNum 840)]"

text \<open>Three files: not a PDF, a PDF one byte over 50 MB, a PDF of exactly 50 MB.\<close>

definition empty_upload_page :: upload_page where
  "empty_upload_page =
     \<lparr>documents = JArr [], uploading = False, uploadProgress = 0, dragOver = False,
      upload_page.loading = False, upload_page.error = JStr [], success = JStr []\<rparr>"

definition notes_txt :: js_file where
  "notes_txt = \<lparr>file_name = lit ''notes.txt'', file_type = lit ''text/plain'', file_size = 12\<rparr>"

definition huge_pdf :: js_file where
  "huge_pdf = \<lparr>file_name = lit ''huge.pdf'', file_type = lit ''application/pdf'',
               file_size = 52428801\<rparr>"

definition limit_pdf :: js_file where
  "limit_pdf = \<lparr>file_name = lit ''limit.pdf'', file_type = lit ''application/pdf'',
                file_size = 52428800\<rparr>"

text \<open>
  The dashboard before its data arrives; statistics and health records with the field
  names of the specification, and with the field names the dashboard reads.
\<close>

definition empty_dashboard :: dashboard_page where
  "empty_dashboard =
     \<lparr>stats = JNull, recentDocuments = JArr [], loading = True, healthStatus = JNull\<rparr>"

definition no_documents :: jsval where
  "no_documents = JObj [(''documents'', JArr [])]"

definition spec_stats :: jsval where
  "spec_stats =
     JObj [(''total_documents'', JNum 3), (''total_chunks'', JNum 42),
           (''total_bytes'', JNum 1048576),
           (''counts_by_status'', JObj [(''completed'', JNum 3)])]"

definition backend_stats :: jsval where
  "backend_stats =
     JObj [(''total_documents'', JNum 3), (''total_chunks'', JNum 42),
           (''total_file_size_mb'', JNum (5 / 2)),
           (''documents_by_status'', JObj [(''completed'', JNum 2), (''failed'', JNum 1)])]"

definition spec_health :: jsval where
  "spec_health =
     JObj [(''embedding_service'', JBool True), (''generation_service'', JBool True),
           (''vector_index'', JBool True), (''chunk_count'', JNum 42)]"

definition backend_health :: jsval where
  "backend_health =
     JObj [(''embedding_service'', JObj [(''working'', JBool True)]),
           (''llm_service'', JObj [(''available'', JBool False)]),
           (''vector_store'', JObj [(''total_chunks'', JNum 42)])]"

section \<open>Properties of the Vector Index\<close>

lemma set_place: "set (place a bs) = insert a (set bs)"
  by (induction bs) auto

lemma set_ranked: "set (ranked xs) = set xs"
  by (induction xs) (simp_all add: set_place)

lemma candidates_scoped:
  "c \<in> set (candidates idx owner document_ids) \<Longrightarrow> c \<in> set idx \<and> owner_id c = owner"
  by (auto simp: candidates_def Let_def split: option.splits if_splits)

lemma query_from_candidates:
  assumes "(cid, score) \<in> set (query idx v owner document_ids k)"
  obtains c where "c \<in> set (candidates idx owner document_ids)" and "chunk_id c = cid"
    and "score = cosine v (embedding_vector c)"
proof -
  from assms have "(cid, score) \<in> set (ranked (map (\<lambda>c. (chunk_id c, cosine v (embedding_vector c)))
                         (candidates idx owner document_ids)))"
    unfolding query_def by (rule in_set_takeD)
  then show thesis using that by (auto simp: set_ranked)
qed

lemma well_formed_unique:
  "well_formed idx \<Longrightarrow> c \<in> set idx \<Longrightarrow> d \<in> set idx \<Longrightarrow> chunk_id c = chunk_id d \<Longrightarrow> c = d"
  unfolding well_formed_def by (simp add: distinct_map inj_on_def)

lemma chunk_ids_upsert:
  "set (map chunk_id (upsert idx c)) = insert (chunk_id c) (set (map chunk_id idx))"
  by (induction idx) auto

text \<open>\<open>upsert\<close> keeps the invariant, so every index built by upserts from the empty one has it.\<close>

lemma well_formed_upsert: "well_formed idx \<Longrightarrow> well_formed (upsert idx c)"
  unfolding well_formed_def
proof (induction idx)
  case Nil
  then show ?case by simp
next
  case (Cons d idx)
  then show ?case using chunk_ids_upsert [of idx c] by auto
qed

lemma two_owner_index_eq: "two_owner_index = [chunk_a, chunk_b]"
  by (simp add: two_owner_index_def chunk_a_def chunk_b_def)

lemma well_formed_empty: "well_formed []"
  by (simp add: well_formed_def)

lemma well_formed_delete: "well_formed idx \<Longrightarrow> well_formed (delete_by_document idx d)"
  by (simp add: well_formed_def delete_by_document_def distinct_map_filter)

lemma well_formed_upserts: "well_formed (foldl upsert [] cs)"
proof -
  have "well_formed idx \<Longrightarrow> well_formed (foldl upsert idx cs)" for idx
    by (induction cs arbitrary: idx) (simp_all add: well_formed_upsert)
  then show ?thesis using well_formed_empty by blast
qed

text \<open>
  C1. Owner isolation. Whatever the query vector, the optional \<open>document_ids\<close> and \<open>k\<close>,
  every \<open>(chunk_id, score)\<close> that \<open>query\<close> returns for an owner is the id and the score of
  a stored chunk of that owner, and in a well-formed index (one built by \<open>upsert\<close>) no
  chunk with that id has another owner. The document ids are validated against the
  owner's documents before they filter (\<open>candidates\<close>), so an id of another owner's
  document adds nothing.
\<close>

theorem query_owner_isolation:
  assumes "(cid, score) \<in> set (query idx v owner document_ids k)"
  shows "(\<exists>c \<in> set idx. chunk_id c = cid \<and> owner_id c = owner \<and>
            score = cosine v (embedding_vector c)) \<and>
         (well_formed idx \<longrightarrow> (\<forall>c \<in> set idx. chunk_id c = cid \<longrightarrow> owner_id c = owner))"
proof -
  from assms obtain c where c: "c \<in> set (candidates idx owner document_ids)" "chunk_id c = cid"
      "score = cosine v (embedding_vector c)"
    by (rule query_from_candidates)
  then have own: "c \<in> set idx" "owner_id c = owner"
    using candidates_scoped by blast+
  have "owner_id d = owner" if "well_formed idx" "d \<in> set idx" "chunk_id d = cid" for d
    using well_formed_unique [OF that(1,2) own(1)] that(3) c(2) own(2) by simp
  with own c(2,3) show ?thesis by blast
qed

text \<open>
  The isolation theorem at the two-owner index: owner 1 asks with the vector of owner 2's
  chunk and names owner 2's document first; the answer is owner 1's chunk alone, though
  owner 2's chunk scores higher.
\<close>

theorem query_owner_isolation_witness:
  "well_formed two_owner_index \<and>
   cosine [1, 0] (embedding_vector chunk_a) < cosine [1, 0] (embedding_vector chunk_b) \<and>
   owner_id chunk_b = 2 \<and>
   (10, 0) \<in> set (query two_owner_index [1, 0] 1 (Some [200, 100]) 5) \<and>
   (\<exists>c \<in> set two_owner_index. chunk_id c = 10 \<and> owner_id c = 1 \<and>
      0 = cosine [1, 0] (embedding_vector c)) \<and>
   (20, 1) \<notin> set (query two_owner_index [1, 0] 1 (Some [200, 100]) 5)"
proof -
  have wf: "well_formed two_owner_index"
    unfolding two_owner_index_def by (intro well_formed_upsert well_formed_empty)
  have q: "query two_owner_index [1, 0] 1 (Some [200, 100]) 5 = [(10, 0)]"
    by (simp add: two_owner_index_eq query_def candidates_def validated_def documents_of_def
        cosine_def dot_def chunk_a_def chunk_b_def)
  have hit: "(10, 0) \<in> set (query two_owner_index [1, 0] 1 (Some [200, 100]) 5)"
    unfolding q by simp
  have "cosine [1, 0] (embedding_vector chunk_a) < cosine [1, 0] (embedding_vector chunk_b)"
    by (simp add: cosine_def dot_def chunk_a_def chunk_b_def)
  moreover have "owner_id chunk_b = 2" by (simp add: chunk_b_def)
  moreover have "(20, 1) \<notin> set (query two_owner_index [1, 0] 1 (Some [200, 100]) 5)"
    unfolding q by simp
  ultimately show ?thesis
    using wf hit query_owner_isolation [OF hit] by blast
qed

section \<open>Properties of services/api.js\<close>

text \<open>The request interceptor changes nothing of a request but its \<open>Authorization\<close> header.\<close>

lemma request_interceptor_headers:
  "request_interceptor b config =
     config\<lparr>headers := (headers config)(''Authorization'' :=
        (case localStorage b ''authToken'' of
           None \<Rightarrow> headers config ''Authorization''
         | Some token \<Rightarrow>
             if token = [] then headers config ''Authorization''
             else Some (lit ''Bearer '' @ token)))\<rparr>"
  by (simp add: request_interceptor_def split: option.split)

text \<open>
  C2. \<open>askQuestion\<close> and \<open>searchDocuments\<close> each send one request, and that request is
  written out in full: the URL, the verb, the payload and the \<open>Content-Type\<close> header do
  not depend on the browser state, and the only other header is \<open>Authorization\<close>, which
  the request interceptor sets to \<open>Bearer <token>\<close> from the stored token (absent when
  no token is stored). The payload has exactly the fields \<open>question\<close>,
  \<open>document_ids\<close>, \<open>max_chunks\<close> (and \<open>temperature\<close> for ask) and no \<open>owner_id\<close>,
  whatever the question and the options. So the stored identity reaches the request
  through the \<open>Authorization\<close> header and through nothing else.
\<close>

theorem payload_carries_no_owner_id:
  "snd (snd (askQuestion srv b q options)) = [askQuestion_request b q options] \<and>
   snd (snd (searchDocuments srv b q options)) = [searchDocuments_request b q options] \<and>
   askQuestion_request b q options =
     \<lparr>url = lit ''/query/ask'', verb = POST, data = JObj (askQuestion_payload q options),
      headers = [''Content-Type'' \<mapsto> lit ''application/json'']
        (''Authorization'' :=
           (case localStorage b ''authToken'' of
              None \<Rightarrow> None
            | Some token \<Rightarrow> if token = [] then None else Some (lit ''Bearer '' @ token)))\<rparr> \<and>
   searchDocuments_request b q options =
     \<lparr>url = lit ''/query/search'', verb = POST, data = JObj (searchDocuments_payload q options),
      headers = [''Content-Type'' \<mapsto> lit ''application/json'']
        (''Authorization'' :=
           (case localStorage b ''authToken'' of
              None \<Rightarrow> None
            | Some token \<Rightarrow> if token = [] then None else Some (lit ''Bearer '' @ token)))\<rparr> \<and>
   data (askQuestion_request b q options) = JObj (askQuestion_payload q options) \<and>
   map fst (askQuestion_payload q options) =
     [''question'', ''document_ids'', ''max_chunks'', ''temperature''] \<and>
   field (askQuestion_payload q options) ''owner_id'' = JUndefined \<and>
   data (searchDocuments_request b q options) = JObj (searchDocuments_payload q options) \<and>
   map fst (searchDocuments_payload q options) =
     [''question'', ''document_ids'', ''max_chunks''] \<and>
   field (searchDocuments_payload q options) ''owner_id'' = JUndefined \<and>
   headers (askQuestion_request b q options) ''Authorization'' =
     (case localStorage b ''authToken'' of
        None \<Rightarrow> None
      | Some token \<Rightarrow> if token = [] then None else Some (lit ''Bearer '' @ token)) \<and>
   headers (searchDocuments_request b q options) ''Authorization'' =
     headers (askQuestion_request b q options) ''Authorization'' \<and>
   data (askQuestion_request b q options) = data (askQuestion_request b' q options) \<and>
   data (searchDocuments_request b q options) = data (searchDocuments_request b' q options)"
proof -
  have "snd (snd (askQuestion srv b q options)) = [askQuestion_request b q options]"
    by (simp add: askQuestion_def api_request_def askQuestion_request_def response_data_def
        Let_def split: prod.split sum.split)
  moreover have "snd (snd (searchDocuments srv b q options)) = [searchDocuments_request b q options]"
    by (simp add: searchDocuments_def api_request_def searchDocuments_request_def
        response_data_def Let_def split: prod.split sum.split)
  moreover have "askQuestion_request b q options =
     \<lparr>url = lit ''/query/ask'', verb = POST, data = JObj (askQuestion_payload q options),
      headers = [''Content-Type'' \<mapsto> lit ''application/json'']
        (''Authorization'' :=
           (case localStorage b ''authToken'' of
              None \<Rightarrow> None
            | Some token \<Rightarrow> if token = [] then None else Some (lit ''Bearer '' @ token)))\<rparr>"
    by (simp add: askQuestion_request_def request_interceptor_headers api_config_def
        split: option.split)
  moreover have "searchDocuments_request b q options =
     \<lparr>url = lit ''/query/search'', verb = POST, data = JObj (searchDocuments_payload q options),
      headers = [''Content-Type'' \<mapsto> lit ''application/json'']
        (''Authorization'' :=
           (case localStorage b ''authToken'' of
              None \<Rightarrow> None
            | Some token \<Rightarrow> if token = [] then None else Some (lit ''Bearer '' @ token)))\<rparr>"
    by (simp add: searchDocuments_request_def request_interceptor_headers api_config_def
        split: option.split)
  moreover have "data (askQuestion_request b q options) = JObj (askQuestion_payload q options) \<and>
   map fst (askQuestion_payload q options) =
     [''question'', ''document_ids'', ''max_chunks'', ''temperature''] \<and>
   field (askQuestion_payload q options) ''owner_id'' = JUndefined \<and>
   data (searchDocuments_request b q options) = JObj (searchDocuments_payload q options) \<and>
   map fst (searchDocuments_payload q options) =
     [''question'', ''document_ids'', ''max_chunks''] \<and>
   field (searchDocuments_payload q options) ''owner_id'' = JUndefined \<and>
   headers (askQuestion_request b q options) ''Authorization'' =
     (case localStorage b ''authToken'' of
        None \<Rightarrow> None
      | Some token \<Rightarrow> if token = [] then None else Some (lit ''Bearer '' @ token)) \<and>
   headers (searchDocuments_request b q options) ''Authorization'' =
     headers (askQuestion_request b q options) ''Authorization'' \<and>
   data (askQuestion_request b q options) = data (askQuestion_request b' q options) \<and>
   data (searchDocuments_request b q options) = data (searchDocuments_request b' q options)"
    by (simp add: askQuestion_request_def searchDocuments_request_def request_interceptor_def
        api_config_def askQuestion_payload_def searchDocuments_payload_def field_def Let_def
        split: option.split)
  ultimately show ?thesis by blast
qed

text \<open>The ask request of a signed-in browser, written out.\<close>

theorem payload_carries_no_owner_id_witness:
  "askQuestion_request signed_in (JStr (lit ''hi'')) None =
     \<lparr>url = lit ''/query/ask'', verb = POST,
      data = JObj [(''question'', JStr (lit ''hi'')), (''document_ids'', JUndefined),
                   (''max_chunks'', JNum 5), (''temperature'', JNum (7 / 10))],
      headers = [''Content-Type'' \<mapsto> lit ''application/json'',
                 ''Authorization'' \<mapsto> lit ''Bearer t0k'']\<rparr>"
  using payload_carries_no_owner_id [of unreachable signed_in "JStr (lit ''hi'')" None signed_in]
  by (simp add: signed_in_def askQuestion_payload_def default_options_def field_def js_or_def
      lit_def)

text \<open>
  C9. Defaulting with \<open>||\<close>: when \<open>maxChunks\<close> is falsy (0, or omitted and so
  \<open>undefined\<close>) the payload carries \<open>max_chunks\<close> 5 for ask and 10 for search, and when
  \<open>temperature\<close> is falsy it carries 0.7; the same holds when the options are omitted
  altogether. No options make the payload carry \<open>max_chunks\<close> 0 or \<open>temperature\<close> 0.
\<close>

theorem falsy_options_get_defaults:
  "(\<not> truthy (field opts ''maxChunks'') \<longrightarrow>
      field (askQuestion_payload q (Some opts)) ''max_chunks'' = JNum 5 \<and>
      field (searchDocuments_payload q (Some opts)) ''max_chunks'' = JNum 10) \<and>
   (\<not> truthy (field opts ''temperature'') \<longrightarrow>
      field (askQuestion_payload q (Some opts)) ''temperature'' = JNum (7 / 10)) \<and>
   field (askQuestion_payload q None) ''max_chunks'' = JNum 5 \<and>
   field (askQuestion_payload q None) ''temperature'' = JNum (7 / 10) \<and>
   field (searchDocuments_payload q None) ''max_chunks'' = JNum 10 \<and>
   field (askQuestion_payload q options) ''max_chunks'' \<noteq> JNum 0 \<and>
   field (askQuestion_payload q options) ''temperature'' \<noteq> JNum 0 \<and>
   field (searchDocuments_payload q options) ''max_chunks'' \<noteq> JNum 0"
  by (auto simp: askQuestion_payload_def searchDocuments_payload_def default_options_def
      field_def js_or_def Let_def)

text \<open>The defaults at options that ask for 0 chunks at temperature 0.\<close>

theorem falsy_options_get_defaults_witness:
  "field [(''maxChunks'', JNum 0), (''temperature'', JNum 0)] ''maxChunks'' = JNum 0 \<and>
   field [(''maxChunks'', JNum 0), (''temperature'', JNum 0)] ''temperature'' = JNum 0 \<and>
   field (askQuestion_payload (JStr (lit ''hi''))
      (Some [(''maxChunks'', JNum 0), (''temperature'', JNum 0)])) ''max_chunks'' = JNum 5 \<and>
   field (searchDocuments_payload (JStr (lit ''hi''))
      (Some [(''maxChunks'', JNum 0), (''temperature'', JNum 0)])) ''max_chunks'' = JNum 10 \<and>
   field (askQuestion_payload (JStr (lit ''hi''))
      (Some [(''maxChunks'', JNum 0), (''temperature'', JNum 0)])) ''temperature'' = JNum (7 / 10)"
  using falsy_options_get_defaults
    [of "[(''maxChunks'', JNum 0), (''temperature'', JNum 0)]" "JStr (lit ''hi'')"]
  by (simp add: field_def)

text \<open>
  C10. A response with status 401 removes \<open>authToken\<close> and \<open>userData\<close> from
  \<open>localStorage\<close> and sets the location to \<open>/login\<close>, and the call is rejected with the
  error; a response with any other status, and an unreachable server, leave the browser
  state as it was.
\<close>

theorem unauthorized_clears_credentials:
  "(srv (request_interceptor b config) = Some r \<and> status r = 401 \<longrightarrow>
      api_request srv b config =
        (b\<lparr>localStorage := (localStorage b)(''authToken'' := None, ''userData'' := None),
           href := lit ''/login''\<rparr>,
         Inl \<lparr>response = Some r\<rparr>,
         [request_interceptor b config]) \<and>
      localStorage (fst (api_request srv b config)) ''authToken'' = None \<and>
      localStorage (fst (api_request srv b config)) ''userData'' = None \<and>
      href (fst (api_request srv b config)) = lit ''/login'') \<and>
   (srv (request_interceptor b config) = Some r \<and> status r \<noteq> 401 \<longrightarrow>
      fst (api_request srv b config) = b) \<and>
   (srv (request_interceptor b config) = None \<longrightarrow> fst (api_request srv b config) = b)"
  by (simp add: api_request_def settle_def response_interceptor_def Let_def)

text \<open>A 401, a 500 and an unreachable server, each met with both credentials stored.\<close>

theorem unauthorized_clears_credentials_witness:
  "localStorage signed_in ''authToken'' = Some (lit ''t0k'') \<and>
   localStorage
     (fst (api_request (\<lambda>c. Some \<lparr>status = 401, rdata = JNull\<rparr>) signed_in
        (api_config GET (lit ''/files/stats'') JUndefined))) ''authToken'' = None \<and>
   localStorage
     (fst (api_request (\<lambda>c. Some \<lparr>status = 401, rdata = JNull\<rparr>) signed_in
        (api_config GET (lit ''/files/stats'') JUndefined))) ''userData'' = None \<and>
   href
     (fst (api_request (\<lambda>c. Some \<lparr>status = 401, rdata = JNull\<rparr>) signed_in
        (api_config GET (lit ''/files/stats'') JUndefined))) = lit ''/login'' \<and>
   fst (api_request (\<lambda>c. Some \<lparr>status = 500, rdata = JNull\<rparr>) signed_in
        (api_config GET (lit ''/files/stats'') JUndefined)) = signed_in \<and>
   fst (api_request unreachable signed_in
        (api_config GET (lit ''/files/stats'') JUndefined)) = signed_in"
  using unauthorized_clears_credentials
    [of "\<lambda>c. Some \<lparr>status = 401, rdata = JNull\<rparr>" signed_in
        "api_config GET (lit ''/files/stats'') JUndefined" "\<lparr>status = 401, rdata = JNull\<rparr>"]
    unauthorized_clears_credentials
    [of "\<lambda>c. Some \<lparr>status = 500, rdata = JNull\<rparr>" signed_in
        "api_config GET (lit ''/files/stats'') JUndefined" "\<lparr>status = 500, rdata = JNull\<rparr>"]
    unauthorized_clears_credentials
    [of unreachable signed_in "api_config GET (lit ''/files/stats'') JUndefined"]
  by (simp add: signed_in_def unreachable_def)

section \<open>Properties of the single-question page\<close>

text \<open>\<open>handleAsk\<close> has no guard: it posts whatever the question field holds.\<close>

lemma handleAsk_always_sends: "snd (handleAsk srv st) = [handleAsk_request (question st)]"
  by (simp add: handleAsk_def axios_post_def Let_def split: sum.split)

section \<open>Properties of the chat page\<close>

lemma lit_eq_iff: "lit a = lit b \<longleftrightarrow> a = b"
  unfolding lit_def by (simp add: inj_on_def)

lemma lit_Nil_iff: "lit s = [] \<longleftrightarrow> s = []"
  by (simp add: lit_def)

lemma truthy_js_or: "truthy d \<Longrightarrow> truthy (js_or v d)"
  by (simp add: js_or_def)

lemma all_dropWhile: "(\<forall>x \<in> set (dropWhile P xs). P x) \<longleftrightarrow> (\<forall>x \<in> set xs. P x)"
  by (induction xs) auto

lemma trim_empty_iff: "trim s = [] \<longleftrightarrow> (\<forall>c \<in> set s. is_whitespace c)"
  by (simp add: trim_def all_dropWhile)

text \<open>The ways a submit ends, once the request has settled.\<close>

lemma handleSubmit_blank:
  "trim (currentQuestion st) = [] \<or> ask_page.loading st \<Longrightarrow>
   handleSubmit srv now b st = Inr (st, b, [])"
  by (simp add: handleSubmit_def)

lemma handleSubmit_failure:
  assumes "trim (currentQuestion st) \<noteq> []" and "\<not> ask_page.loading st"
    and "askQuestion srv b (JStr (trim (currentQuestion st))) (submit_options (settings st)) =
           (b', Inl e, sent)"
  shows "handleSubmit srv now b st =
     Inr (st\<lparr>currentQuestion := [],
             ask_page.error := js_or (error_detail e) (JStr (lit ''Failed to get answer'')),
             messages := filter (\<lambda>msg. \<not> isThinking msg) (messages st) @
               [userMessage (trim (currentQuestion st)) (now 0), errorMessage e (now 2)],
             ask_page.loading := False\<rparr>,
          b', sent)"
  using assms by (simp add: handleSubmit_def Let_def userMessage_def thinkingMessage_def)

lemma handleSubmit_success:
  assumes "trim (currentQuestion st) \<noteq> []" and "\<not> ask_page.loading st"
    and "askQuestion srv b (JStr (trim (currentQuestion st))) (submit_options (settings st)) =
           (b', Inr resp, sent)"
  shows "handleSubmit srv now b st =
     (case assistantMessage resp (now 2) of
        Inl err \<Rightarrow> Inl err
      | Inr m \<Rightarrow>
         Inr (st\<lparr>currentQuestion := [], ask_page.error := JStr [],
             messages := filter (\<lambda>msg. \<not> isThinking msg) (messages st) @
               [userMessage (trim (currentQuestion st)) (now 0), m],
             ask_page.loading := False\<rparr>,
          b', sent))"
  using assms by (simp add: handleSubmit_def Let_def userMessage_def thinkingMessage_def split: sum.split)

lemma askQuestion_sent:
  "snd (snd (askQuestion srv b q options)) = [askQuestion_request b q options]"
  by (simp add: askQuestion_def api_request_def askQuestion_request_def response_data_def
      Let_def split: prod.split sum.split)

lemma askQuestion_rejected:
  "settle (srv (askQuestion_request b q options)) = Inl e \<Longrightarrow>
   askQuestion srv b q options =
     (fst (response_interceptor b (Inl e)), Inl e, [askQuestion_request b q options])"
  by (simp add: askQuestion_def api_request_def askQuestion_request_def response_data_def
      response_interceptor_def Let_def)

lemma askQuestion_fulfilled:
  "srv (askQuestion_request b q options) = Some r \<Longrightarrow> 200 \<le> status r \<Longrightarrow> status r < 300 \<Longrightarrow>
   askQuestion srv b q options = (b, Inr (rdata r), [askQuestion_request b q options])"
  by (simp add: askQuestion_def api_request_def askQuestion_request_def response_data_def
      response_interceptor_def settle_def Let_def)

lemma trim_hi: "trim (lit '' hi '') = lit ''hi''"
  by (simp add: trim_def lit_def is_whitespace_def)

lemma blank_ws: "\<forall>c \<in> set (lit ''  '' @ [9, 160]). is_whitespace c"
  by (simp add: lit_def is_whitespace_def)

lemma page_hi:
  "trim (currentQuestion (page_with (lit '' hi ''))) \<noteq> []"
  "\<not> ask_page.loading (page_with (lit '' hi ''))"
  by (simp_all add: page_with_def trim_hi lit_Nil_iff)

lemma unreachable_run:
  "handleSubmit unreachable clock signed_in (page_with (lit '' hi '')) =
     Inr ((page_with [])\<lparr>ask_page.error := JStr (lit ''Failed to get answer''),
            messages := [userMessage (lit ''hi'') (clock 0),
                         errorMessage \<lparr>response = None\<rparr> (clock 2)]\<rparr>,
          signed_in,
          [askQuestion_request signed_in (JStr (lit ''hi''))
             (submit_options (settings (page_with (lit '' hi ''))))])"
proof -
  have s: "settle (unreachable (askQuestion_request signed_in (JStr (trim (currentQuestion (page_with (lit '' hi '')))))
      (submit_options (settings (page_with (lit '' hi '')))))) = Inl \<lparr>response = None\<rparr>"
    by (simp add: unreachable_def settle_def)
  have t: "trim (currentQuestion (page_with (lit '' hi ''))) = lit ''hi''"
    by (simp add: page_with_def trim_hi)
  have "lit ''hi'' \<noteq> []" by (simp add: lit_def)
  with t have g: "trim (currentQuestion (page_with (lit '' hi ''))) \<noteq> []" by simp
  have l: "\<not> ask_page.loading (page_with (lit '' hi ''))" by (simp add: page_with_def)
  show ?thesis
    unfolding handleSubmit_failure [OF g l askQuestion_rejected [where srv = unreachable, OF s]] t
    by (simp add: page_with_def response_interceptor_def error_detail_def js_or_def)
qed

text \<open>
  C5. A submit whose question is empty or only whitespace, or that comes while a request
  is in flight, leaves the page and the browser as they were and sends nothing. A submit
  that sends anything has a non-empty trimmed question and no request in flight, and it
  sends one request, the ask request for the trimmed question.
\<close>

theorem blank_question_not_sent:
  "((\<forall>c \<in> set (currentQuestion st). is_whitespace c) \<or> ask_page.loading st \<longrightarrow>
      handleSubmit srv now b st = Inr (st, b, [])) \<and>
   (handleSubmit srv now b st = Inr (st', b', sent) \<and> sent \<noteq> [] \<longrightarrow>
      trim (currentQuestion st) \<noteq> [] \<and> \<not> ask_page.loading st \<and>
      sent = [askQuestion_request b (JStr (trim (currentQuestion st)))
                (submit_options (settings st))])"
proof (intro conjI impI)
  assume "(\<forall>c \<in> set (currentQuestion st). is_whitespace c) \<or> ask_page.loading st"
  then have "trim (currentQuestion st) = [] \<or> ask_page.loading st"
    by (simp add: trim_empty_iff)
  then show "handleSubmit srv now b st = Inr (st, b, [])"
    by (rule handleSubmit_blank)
next
  assume a: "handleSubmit srv now b st = Inr (st', b', sent) \<and> sent \<noteq> []"
  have g: "trim (currentQuestion st) \<noteq> [] \<and> \<not> ask_page.loading st"
  proof (rule ccontr)
    assume "\<not> ?thesis"
    then have "handleSubmit srv now b st = Inr (st, b, [])"
      using handleSubmit_blank [of st srv now b] by blast
    with a show False by auto
  qed
  then show "trim (currentQuestion st) \<noteq> []" and "\<not> ask_page.loading st" by simp_all
  obtain b1 res sent1 where ask:
    "askQuestion srv b (JStr (trim (currentQuestion st))) (submit_options (settings st)) =
       (b1, res, sent1)"
    by (cases "askQuestion srv b (JStr (trim (currentQuestion st))) (submit_options (settings st))")
  then have sent1: "sent1 = [askQuestion_request b (JStr (trim (currentQuestion st)))
                (submit_options (settings st))]"
    using askQuestion_sent [of srv b "JStr (trim (currentQuestion st))" "submit_options (settings st)"]
    by simp
  have "sent = sent1"
  proof (cases res)
    case (Inl e)
    with ask g a show ?thesis
      using handleSubmit_failure [of st srv b b1 e sent1 now] by simp
  next
    case (Inr resp)
    with ask g a show ?thesis
      using handleSubmit_success [of st srv b b1 resp sent1 now]
      by (cases "assistantMessage resp (now 2)") simp_all
  qed
  with sent1 show "sent = [askQuestion_request b (JStr (trim (currentQuestion st)))
                (submit_options (settings st))]"
    by simp
qed

text \<open>
  A question of two spaces, a tab and a no-break space sends nothing; the question
  \<open>" hi "\<close> is sent as \<open>"hi"\<close>.
\<close>

theorem blank_question_not_sent_witness:
  "handleSubmit unreachable clock signed_in (page_with (lit ''  '' @ [9, 160])) =
     Inr (page_with (lit ''  '' @ [9, 160]), signed_in, []) \<and>
   trim (currentQuestion (page_with (lit '' hi ''))) \<noteq> [] \<and>
   \<not> ask_page.loading (page_with (lit '' hi '')) \<and>
   handleSubmit unreachable clock signed_in (page_with (lit '' hi '')) =
     Inr ((page_with [])\<lparr>ask_page.error := JStr (lit ''Failed to get answer''),
            messages := [userMessage (lit ''hi'') (clock 0),
                         errorMessage \<lparr>response = None\<rparr> (clock 2)]\<rparr>,
          signed_in,
          [askQuestion_request signed_in (JStr (lit ''hi''))
             (submit_options (settings (page_with (lit '' hi ''))))])"
proof -
  have blank: "(\<forall>c \<in> set (currentQuestion (page_with (lit ''  '' @ [9, 160]))). is_whitespace c) \<or>
      ask_page.loading (page_with (lit ''  '' @ [9, 160]))"
    using blank_ws by (simp add: page_with_def)
  have sent: "[askQuestion_request signed_in (JStr (lit ''hi''))
             (submit_options (settings (page_with (lit '' hi ''))))] \<noteq> []"
    by simp
  show ?thesis
    using blank sent unreachable_run
      blank_question_not_sent [where st = "page_with (lit ''  '' @ [9, 160])"
        and srv = unreachable and now = clock and b = signed_in]
      blank_question_not_sent [where st = "page_with (lit '' hi '')"
        and srv = unreachable and now = clock and b = signed_in and b' = signed_in
        and st' = "(page_with [])\<lparr>ask_page.error := JStr (lit ''Failed to get answer''),
            messages := [userMessage (lit ''hi'') (clock 0),
                         errorMessage \<lparr>response = None\<rparr> (clock 2)]\<rparr>"
        and sent = "[askQuestion_request signed_in (JStr (lit ''hi''))
             (submit_options (settings (page_with (lit '' hi ''))))]"]
    by blast
qed


lemma react_child_text: "s \<noteq> [] \<Longrightarrow> react_child (JStr s) = Inr [JStr s]"
  by simp

lemma error_detail_rejecting:
  "error_detail \<lparr>response = Some \<lparr>status = 422, rdata = JObj [(''detail'', validation_detail)]\<rparr>\<rparr>
     = validation_detail"
  by (simp add: error_detail_def optchain_def field_def)

lemma truthy_validation_detail: "truthy validation_detail"
  by (simp add: validation_detail_def)

lemma react_child_validation_detail: "react_child validation_detail = Inl RenderThrows"
  by (simp add: validation_detail_def)

lemma rejecting_run:
  "handleSubmit rejecting clock signed_in (page_with (lit '' hi '')) =
     Inr ((page_with [])\<lparr>ask_page.error := validation_detail,
            messages := [userMessage (lit ''hi'') (clock 0),
                         errorMessage \<lparr>response = Some \<lparr>status = 422,
                           rdata = JObj [(''detail'', validation_detail)]\<rparr>\<rparr> (clock 2)]\<rparr>,
          signed_in,
          [askQuestion_request signed_in (JStr (lit ''hi''))
             (submit_options (settings (page_with (lit '' hi ''))))])"
proof -
  have s: "settle (rejecting (askQuestion_request signed_in (JStr (trim (currentQuestion (page_with (lit '' hi '')))))
      (submit_options (settings (page_with (lit '' hi '')))))) =
      Inl \<lparr>response = Some \<lparr>status = 422, rdata = JObj [(''detail'', validation_detail)]\<rparr>\<rparr>"
    by (simp add: rejecting_def settle_def)
  have t: "trim (currentQuestion (page_with (lit '' hi ''))) = lit ''hi''"
    by (simp add: page_with_def trim_hi)
  show ?thesis
    unfolding handleSubmit_failure [OF page_hi askQuestion_rejected [where srv = rejecting, OF s]] t
    by (simp add: page_with_def response_interceptor_def error_detail_rejecting js_or_def
        truthy_validation_detail)
qed

text \<open>
  A rejected request whose \<open>detail\<close> is absent or a string: the error bubble shows the
  content of the error message and the banner shows the error state, both as text.
\<close>

lemma text_detail_renders:
  assumes "error_detail e = JUndefined \<or> (\<exists>s. error_detail e = JStr s)"
    and "ask_page.error st = js_or (error_detail e) (JStr (lit ''Failed to get answer''))"
  shows "renderMessage cmp fmt (errorMessage e t) = Inr (ErrorBubble [content (errorMessage e t)]) \<and>
         error_banner st = Inr (Box [ask_page.error st])"
  using assms
  by (auto simp: renderMessage_def errorMessage_def error_banner_def js_or_def lit_Nil_iff)

text \<open>
  C4 fails on the code. When the ask request is rejected with a \<open>detail\<close> that is a list
  of records (the body of a 422), \<open>handleSubmit\<close> puts that list into the error state and
  into the content of the error message. React cannot show a record as a child, so the
  error bubble, the banner and with them the whole page fail to render: the user gets no
  error indication.
\<close>

theorem structured_detail_unmounts_page:
  "handleSubmit rejecting clock signed_in (page_with (lit '' hi '')) =
     Inr ((page_with [])\<lparr>ask_page.error := validation_detail,
            messages := [userMessage (lit ''hi'') (clock 0),
                         errorMessage \<lparr>response = Some \<lparr>status = 422,
                           rdata = JObj [(''detail'', validation_detail)]\<rparr>\<rparr> (clock 2)]\<rparr>,
          signed_in,
          [askQuestion_request signed_in (JStr (lit ''hi''))
             (submit_options (settings (page_with (lit '' hi ''))))]) \<and>
   content (errorMessage \<lparr>response = Some \<lparr>status = 422,
              rdata = JObj [(''detail'', validation_detail)]\<rparr>\<rparr> (clock 2)) = validation_detail \<and>
   renderMessage cmp fmt (errorMessage \<lparr>response = Some \<lparr>status = 422,
              rdata = JObj [(''detail'', validation_detail)]\<rparr>\<rparr> (clock 2)) = Inl RenderThrows \<and>
   error_banner ((page_with [])\<lparr>ask_page.error := validation_detail,
            messages := [userMessage (lit ''hi'') (clock 0),
                         errorMessage \<lparr>response = Some \<lparr>status = 422,
                           rdata = JObj [(''detail'', validation_detail)]\<rparr>\<rparr> (clock 2)]\<rparr>)
     = Inl RenderThrows \<and>
   render_ask_page cmp fmt ((page_with [])\<lparr>ask_page.error := validation_detail,
            messages := [userMessage (lit ''hi'') (clock 0),
                         errorMessage \<lparr>response = Some \<lparr>status = 422,
                           rdata = JObj [(''detail'', validation_detail)]\<rparr>\<rparr> (clock 2)]\<rparr>)
     = Inl RenderThrows"
proof -
  have c: "content (errorMessage \<lparr>response = Some \<lparr>status = 422,
              rdata = JObj [(''detail'', validation_detail)]\<rparr>\<rparr> (clock 2)) = validation_detail"
    by (simp add: errorMessage_def error_detail_rejecting js_or_def truthy_validation_detail)
  have m: "renderMessage cmp fmt (errorMessage \<lparr>response = Some \<lparr>status = 422,
              rdata = JObj [(''detail'', validation_detail)]\<rparr>\<rparr> (clock 2)) = Inl RenderThrows"
    by (simp add: renderMessage_def c react_child_validation_detail)
  have u: "renderMessage cmp fmt (userMessage (lit ''hi'') (clock 0)) = Inr (UserBubble [JStr (lit ''hi'')])"
    by (simp add: renderMessage_def userMessage_def lit_Nil_iff)
  have b: "error_banner ((page_with [])\<lparr>ask_page.error := validation_detail,
            messages := [userMessage (lit ''hi'') (clock 0),
                         errorMessage \<lparr>response = Some \<lparr>status = 422,
                           rdata = JObj [(''detail'', validation_detail)]\<rparr>\<rparr> (clock 2)]\<rparr>)
     = Inl RenderThrows"
    by (simp add: error_banner_def react_child_validation_detail)
  show ?thesis
    using rejecting_run c m b by (simp add: render_ask_page_def u)
qed

text \<open>
  C6, as the code has it. After a fulfilled ask request whose body is not \<open>null\<close>, the
  assistant message takes its content from the field \<open>answer\<close> of the body, its sources
  from \<open>sources\<close>, its model info from \<open>model_info\<close> and its processing time from
  \<open>processing_time_ms\<close>; nothing else of the body reaches the page.
\<close>

theorem answer_read_from_answer_field:
  assumes "trim (currentQuestion st) \<noteq> []" and "\<not> ask_page.loading st"
    and "srv (askQuestion_request b (JStr (trim (currentQuestion st)))
           (submit_options (settings st))) = Some r"
    and "200 \<le> status r" and "status r < 300"
    and "rdata r \<noteq> JNull" and "rdata r \<noteq> JUndefined"
  shows "handleSubmit srv now b st =
     Inr (st\<lparr>currentQuestion := [], ask_page.error := JStr [],
             messages := filter (\<lambda>msg. \<not> isThinking msg) (messages st) @
               [userMessage (trim (currentQuestion st)) (now 0),
                \<lparr>type = Assistant, content = getprop (rdata r) ''answer'',
                 timestamp = now 2, isThinking = False,
                 sources = getprop (rdata r) ''sources'',
                 modelInfo = getprop (rdata r) ''model_info'',
                 processingTime = getprop (rdata r) ''processing_time_ms''\<rparr>],
             ask_page.loading := False\<rparr>,
          b,
          [askQuestion_request b (JStr (trim (currentQuestion st))) (submit_options (settings st))])"
  unfolding handleSubmit_success [OF assms(1,2) askQuestion_fulfilled [where srv = srv, OF assms(3,4,5)]]
  using assms(6,7) by (simp add: assistantMessage_def)

text \<open>
  A body with the field \<open>answer\<close>: its text is the content of the assistant message.
\<close>

theorem answer_read_from_answer_field_witness:
  "handleSubmit (answering backend_answer) clock signed_in (page_with (lit '' hi '')) =
     Inr ((page_with [])\<lparr>messages :=
             [userMessage (lit ''hi'') (clock 0),
              \<lparr>type = Assistant, content = JStr (lit ''The sprint goal is X.''),
               timestamp = clock 2, isThinking = False, sources = JArr [],
               modelInfo = JStr (lit ''llama2''), processingTime = JNum 840\<rparr>]\<rparr>,
          signed_in,
          [askQuestion_request signed_in (JStr (lit ''hi''))
             (submit_options (settings (page_with (lit '' hi ''))))])"
proof -
  have r: "answering backend_answer (askQuestion_request signed_in
      (JStr (trim (currentQuestion (page_with (lit '' hi '')))))
      (submit_options (settings (page_with (lit '' hi ''))))) =
      Some \<lparr>status = 200, rdata = backend_answer\<rparr>"
    by (simp add: answering_def)
  have t: "trim (currentQuestion (page_with (lit '' hi ''))) = lit ''hi''"
    by (simp add: page_with_def trim_hi)
  show ?thesis
    using answer_read_from_answer_field [where srv = "answering backend_answer", OF page_hi r, of clock]
    unfolding t
    by (simp add: backend_answer_def page_with_def field_def)
qed

text \<open>
  C6 as stated fails: a body that carries the generated text under \<open>answer_text\<close>
  gives an assistant message whose content is \<open>undefined\<close>.
\<close>

theorem answer_text_not_read:
  "getprop spec_answer ''answer_text'' = JStr (lit ''The sprint goal is X.'') \<and>
   handleSubmit (answering spec_answer) clock signed_in (page_with (lit '' hi '')) =
     Inr ((page_with [])\<lparr>messages :=
             [userMessage (lit ''hi'') (clock 0),
              \<lparr>type = Assistant, content = JUndefined,
               timestamp = clock 2, isThinking = False, sources = JArr [],
               modelInfo = JStr (lit ''llama2''), processingTime = JNum 840\<rparr>]\<rparr>,
          signed_in,
          [askQuestion_request signed_in (JStr (lit ''hi''))
             (submit_options (settings (page_with (lit '' hi ''))))])"
proof -
  have r: "askQuestion (answering spec_answer) signed_in
      (JStr (trim (currentQuestion (page_with (lit '' hi '')))))
      (submit_options (settings (page_with (lit '' hi '')))) =
      (signed_in, Inr spec_answer,
       [askQuestion_request signed_in (JStr (trim (currentQuestion (page_with (lit '' hi '')))))
          (submit_options (settings (page_with (lit '' hi ''))))])"
    by (simp add: answering_def askQuestion_def api_request_def response_data_def
      response_interceptor_def settle_def askQuestion_request_def Let_def)
  have t: "trim (currentQuestion (page_with (lit '' hi ''))) = lit ''hi''"
    by (simp add: page_with_def trim_hi)
  have "handleSubmit (answering spec_answer) clock signed_in (page_with (lit '' hi '')) =
     Inr ((page_with [])\<lparr>messages :=
             [userMessage (lit ''hi'') (clock 0),
              \<lparr>type = Assistant, content = JUndefined,
               timestamp = clock 2, isThinking = False, sources = JArr [],
               modelInfo = JStr (lit ''llama2''), processingTime = JNum 840\<rparr>]\<rparr>,
          signed_in,
          [askQuestion_request signed_in (JStr (lit ''hi''))
             (submit_options (settings (page_with (lit '' hi ''))))])"
    unfolding handleSubmit_success [OF page_hi r] t
    by (simp add: spec_answer_def page_with_def field_def assistantMessage_def)
  then show ?thesis by (simp add: spec_answer_def field_def)
qed

section \<open>Properties of the upload page\<close>

text \<open>
  C3. A file whose type is not \<open>application/pdf\<close>, or whose size exceeds
  50 * 1024 * 1024 = 52428800 bytes, is rejected: the error state is set to a non-empty
  message, nothing else changes and no request is sent. A file of type
  \<open>application/pdf\<close> of at most 52428800 bytes is sent in one request, written out in
  full: a \<open>POST\<close> to \<open>/files/upload\<close> whose multipart form holds that file (its name,
  type and size) as the entry \<open>file\<close>, with the stored token in the \<open>Authorization\<close>
  header.
\<close>

theorem upload_validation:
  "(file_type f \<noteq> lit ''application/pdf'' \<or> 52428800 < file_size f \<longrightarrow>
      (\<exists>msg. msg \<noteq> [] \<and>
         handleFileUpload srv str b (Some f) st = (st\<lparr>upload_page.error := JStr msg\<rparr>, b, []))) \<and>
   (file_type f = lit ''application/pdf'' \<and> file_size f \<le> 52428800 \<longrightarrow>
      snd (snd (handleFileUpload srv str b (Some f) st)) =
        [\<lparr>url = lit ''/files/upload'', verb = POST,
          data = JObj [(''file'', JObj [(''name'', JStr (file_name f)),
                                        (''type'', JStr (file_type f)),
                                        (''size'', JNum (of_nat (file_size f)))])],
          headers = [''Content-Type'' \<mapsto> lit ''multipart/form-data'']
            (''Authorization'' :=
               (case localStorage b ''authToken'' of
                  None \<Rightarrow> None
                | Some token \<Rightarrow> if token = [] then None else Some (lit ''Bearer '' @ token)))\<rparr>] \<and>
      snd (snd (handleFileUpload srv str b (Some f) st)) =
        [request_interceptor b (uploadPDF_config f)] \<and>
      url (request_interceptor b (uploadPDF_config f)) = lit ''/files/upload'' \<and>
      verb (request_interceptor b (uploadPDF_config f)) = POST)"
proof (intro conjI impI)
  assume bad: "file_type f \<noteq> lit ''application/pdf'' \<or> 52428800 < file_size f"
  show "\<exists>msg. msg \<noteq> [] \<and>
         handleFileUpload srv str b (Some f) st = (st\<lparr>upload_page.error := JStr msg\<rparr>, b, [])"
  proof (cases "file_type f \<noteq> lit ''application/pdf''")
    case True
    then have "handleFileUpload srv str b (Some f) st =
        (st\<lparr>upload_page.error := JStr (lit ''Please select a PDF file'')\<rparr>, b, [])"
      by (simp add: handleFileUpload_def)
    moreover have "lit ''Please select a PDF file'' \<noteq> []" by (simp add: lit_Nil_iff)
    ultimately show ?thesis by blast
  next
    case False
    with bad have "handleFileUpload srv str b (Some f) st =
        (st\<lparr>upload_page.error := JStr (lit ''File size must be less than 50MB'')\<rparr>, b, [])"
      by (simp add: handleFileUpload_def)
    moreover have "lit ''File size must be less than 50MB'' \<noteq> []" by (simp add: lit_Nil_iff)
    ultimately show ?thesis by blast
  qed
next
  assume ok: "file_type f = lit ''application/pdf'' \<and> file_size f \<le> 52428800"
  then show sent: "snd (snd (handleFileUpload srv str b (Some f) st)) =
        [request_interceptor b (uploadPDF_config f)]"
    by (simp add: handleFileUpload_def uploadPDF_def api_request_def response_data_def Let_def
        split: prod.split sum.split)
  have "request_interceptor b (uploadPDF_config f) =
        \<lparr>url = lit ''/files/upload'', verb = POST,
          data = JObj [(''file'', JObj [(''name'', JStr (file_name f)),
                                        (''type'', JStr (file_type f)),
                                        (''size'', JNum (of_nat (file_size f)))])],
          headers = [''Content-Type'' \<mapsto> lit ''multipart/form-data'']
            (''Authorization'' :=
               (case localStorage b ''authToken'' of
                  None \<Rightarrow> None
                | Some token \<Rightarrow> if token = [] then None else Some (lit ''Bearer '' @ token)))\<rparr>"
    by (simp add: request_interceptor_headers uploadPDF_config_def api_config_def Let_def
        split: option.split)
  with sent show "snd (snd (handleFileUpload srv str b (Some f) st)) =
        [\<lparr>url = lit ''/files/upload'', verb = POST,
          data = JObj [(''file'', JObj [(''name'', JStr (file_name f)),
                                        (''type'', JStr (file_type f)),
                                        (''size'', JNum (of_nat (file_size f)))])],
          headers = [''Content-Type'' \<mapsto> lit ''multipart/form-data'']
            (''Authorization'' :=
               (case localStorage b ''authToken'' of
                  None \<Rightarrow> None
                | Some token \<Rightarrow> if token = [] then None else Some (lit ''Bearer '' @ token)))\<rparr>]"
    by simp
next
  show "url (request_interceptor b (uploadPDF_config f)) = lit ''/files/upload''"
    by (simp add: request_interceptor_def uploadPDF_config_def api_config_def Let_def
        split: option.split)
next
  show "verb (request_interceptor b (uploadPDF_config f)) = POST"
    by (simp add: request_interceptor_def uploadPDF_config_def api_config_def Let_def
        split: option.split)
qed

text \<open>
  A text file, a PDF of 52428801 bytes and a PDF of 52428800 bytes.
\<close>

theorem upload_validation_witness:
  "file_type notes_txt \<noteq> lit ''application/pdf'' \<and>
   handleFileUpload unreachable (\<lambda>v. []) signed_in (Some notes_txt) empty_upload_page =
     (empty_upload_page\<lparr>upload_page.error := JStr (lit ''Please select a PDF file'')\<rparr>,
      signed_in, []) \<and>
   52428800 < file_size huge_pdf \<and>
   handleFileUpload unreachable (\<lambda>v. []) signed_in (Some huge_pdf) empty_upload_page =
     (empty_upload_page\<lparr>upload_page.error := JStr (lit ''File size must be less than 50MB'')\<rparr>,
      signed_in, []) \<and>
   file_type limit_pdf = lit ''application/pdf'' \<and> file_size limit_pdf \<le> 52428800 \<and>
   snd (snd (handleFileUpload unreachable (\<lambda>v. []) signed_in (Some limit_pdf) empty_upload_page)) =
     [\<lparr>url = lit ''/files/upload'', verb = POST,
       data = JObj [(''file'', JObj [(''name'', JStr (lit ''limit.pdf'')),
                                     (''type'', JStr (lit ''application/pdf'')),
                                     (''size'', JNum 52428800)])],
       headers = [''Content-Type'' \<mapsto> lit ''multipart/form-data'',
                  ''Authorization'' \<mapsto> lit ''Bearer t0k'']\<rparr>]"
proof -
  have a: "file_type notes_txt \<noteq> lit ''application/pdf''"
    by (simp add: notes_txt_def lit_eq_iff)
  have b: "52428800 < file_size huge_pdf" "file_type huge_pdf = lit ''application/pdf''"
    by (simp_all add: huge_pdf_def)
  have c: "file_type limit_pdf = lit ''application/pdf'' \<and> file_size limit_pdf \<le> 52428800"
    by (simp add: limit_pdf_def)
  from a have r1: "handleFileUpload unreachable (\<lambda>v. []) signed_in (Some notes_txt) empty_upload_page =
     (empty_upload_page\<lparr>upload_page.error := JStr (lit ''Please select a PDF file'')\<rparr>,
      signed_in, [])"
    by (simp add: handleFileUpload_def)
  from b have r2: "handleFileUpload unreachable (\<lambda>v. []) signed_in (Some huge_pdf) empty_upload_page =
     (empty_upload_page\<lparr>upload_page.error := JStr (lit ''File size must be less than 50MB'')\<rparr>,
      signed_in, [])"
    by (simp add: handleFileUpload_def)
  have h: "[''Content-Type'' \<mapsto> lit ''multipart/form-data'']
            (''Authorization'' :=
               (case localStorage signed_in ''authToken'' of
                  None \<Rightarrow> None
                | Some token \<Rightarrow> if token = [] then None else Some (lit ''Bearer '' @ token))) =
         [''Content-Type'' \<mapsto> lit ''multipart/form-data'',
          ''Authorization'' \<mapsto> lit ''Bearer t0k'']"
    by (simp add: signed_in_def lit_def)
  have fields: "file_name limit_pdf = lit ''limit.pdf''" "file_type limit_pdf = lit ''application/pdf''"
      "file_size limit_pdf = 52428800"
    by (simp_all add: limit_pdf_def)
  show ?thesis
    using a b c r1 r2
      upload_validation [where f = notes_txt and srv = unreachable and str = "\<lambda>v. []"
        and b = signed_in and st = empty_upload_page]
      upload_validation [where f = huge_pdf and srv = unreachable and str = "\<lambda>v. []"
        and b = signed_in and st = empty_upload_page]
      upload_validation [where f = limit_pdf and srv = unreachable and str = "\<lambda>v. []"
        and b = signed_in and st = empty_upload_page]
    unfolding h fields by simp
qed

section \<open>Properties of the dashboard\<close>

lemma loadDashboardData_stats:
  "stats (loadDashboardData (Inr s) d h st) = s \<and>
   \<not> dashboard_page.loading (loadDashboardData (Inr s) d h st)"
  by (simp add: loadDashboardData_def Let_def split: sum.split)

lemma loadDashboardData_health:
  assumes "truthy h" and "d = Inl e \<or> (\<exists>v docs. d = Inr v \<and> first_five_documents v = Inr docs)"
  shows "healthStatus (loadDashboardData s d (Inr h) st) = h \<and>
   \<not> dashboard_page.loading (loadDashboardData s d (Inr h) st)"
  using assms by (auto simp: loadDashboardData_def Let_def split: sum.split)

lemma no_documents_ok: "first_five_documents no_documents = Inr (JArr [])"
  by (simp add: first_five_documents_def no_documents_def field_def)

text \<open>
  C7, as the code has it. Once the statistics request is fulfilled with a truthy value,
  the Stats Grid shows its fields \<open>total_documents\<close>, \<open>total_file_size_mb\<close> and
  \<open>total_chunks\<close>, and \<open>documents_by_status.completed\<close> (0 when that is missing or
  falsy).
\<close>

theorem stats_grid_fields:
  "truthy s \<longrightarrow>
   render_stats (loadDashboardData (Inr s) d h st) =
     Some \<lparr>total_documents_shown = getprop s ''total_documents'',
           storage_used_shown = getprop s ''total_file_size_mb'',
           text_chunks_shown = getprop s ''total_chunks'',
           processed_shown =
             js_or (optchain (getprop s ''documents_by_status'') ''completed'') (JNum 0)\<rparr>"
  using loadDashboardData_stats [of s d h st] by (simp add: render_stats_def)

text \<open>
  Statistics with the field names the dashboard reads.
\<close>

theorem stats_grid_fields_witness:
  "truthy backend_stats \<and>
   render_stats (loadDashboardData (Inr backend_stats) (Inr no_documents) (Inl \<lparr>response = None\<rparr>)
       empty_dashboard) =
     Some \<lparr>total_documents_shown = JNum 3, storage_used_shown = JNum (5 / 2),
           text_chunks_shown = JNum 42, processed_shown = JNum 2\<rparr>"
  using stats_grid_fields [of backend_stats "Inr no_documents" "Inl \<lparr>response = None\<rparr>"
      empty_dashboard]
  by (simp add: backend_stats_def field_def optchain_def js_or_def)

text \<open>
  C7 as stated fails: of a record with \<open>total_bytes\<close> and \<open>counts_by_status\<close> the
  dashboard shows an undefined storage figure and 0 processed documents.
\<close>

theorem spec_stats_fields_not_read:
  "getprop spec_stats ''total_bytes'' = JNum 1048576 \<and>
   optchain (getprop spec_stats ''counts_by_status'') ''completed'' = JNum 3 \<and>
   render_stats (loadDashboardData (Inr spec_stats) (Inr no_documents) (Inl \<lparr>response = None\<rparr>)
       empty_dashboard) =
     Some \<lparr>total_documents_shown = JNum 3, storage_used_shown = JUndefined,
           text_chunks_shown = JNum 42, processed_shown = JNum 0\<rparr>"
  using loadDashboardData_stats [of spec_stats "Inr no_documents" "Inl \<lparr>response = None\<rparr>"
      empty_dashboard]
  by (simp add: render_stats_def spec_stats_def field_def optchain_def js_or_def)

text \<open>
  C8, as the code has it. Once the health request is fulfilled with a truthy value (and
  the documents step did not throw), the three dots of the System Status panel are green
  according to \<open>embedding_service.working\<close>, \<open>llm_service.available\<close> and
  \<open>vector_store.total_chunks >= 0\<close>.
\<close>

theorem system_status_fields:
  "truthy h \<and>
   ((\<exists>e. d = Inl e) \<or> (\<exists>v docs. d = Inr v \<and> first_five_documents v = Inr docs)) \<longrightarrow>
   render_health cn (loadDashboardData s d (Inr h) st) =
     Some \<lparr>embedding_service_green =
             truthy (optchain (getprop h ''embedding_service'') ''working''),
           llm_service_green =
             truthy (optchain (getprop h ''llm_service'') ''available''),
           vector_database_green =
             js_ge0 cn (optchain (getprop h ''vector_store'') ''total_chunks'')\<rparr>"
  using loadDashboardData_health [of h d _ s st] by (auto simp: render_health_def)

text \<open>
  A health record with the field names the dashboard reads: the language model is down.
\<close>

theorem system_status_fields_witness:
  "truthy backend_health \<and>
   first_five_documents no_documents = Inr (JArr []) \<and>
   render_health (\<lambda>v. None)
     (loadDashboardData (Inr backend_stats) (Inr no_documents) (Inr backend_health)
        empty_dashboard) =
     Some \<lparr>embedding_service_green = True, llm_service_green = False,
           vector_database_green = True\<rparr>"
  using no_documents_ok
    system_status_fields [of backend_health "Inr no_documents" "\<lambda>v. None"
      "Inr backend_stats" empty_dashboard]
  by (simp add: backend_health_def field_def optchain_def js_ge0_def)

text \<open>
  C8 as stated fails: with \<open>embedding_service\<close>, \<open>generation_service\<close> and
  \<open>vector_index\<close> all reported reachable and a \<open>chunk_count\<close> of 42, the panel shows
  three red dots.
\<close>

theorem spec_health_fields_not_read:
  "getprop spec_health ''generation_service'' = JBool True \<and>
   getprop spec_health ''vector_index'' = JBool True \<and>
   getprop spec_health ''chunk_count'' = JNum 42 \<and>
   render_health (\<lambda>v. None)
     (loadDashboardData (Inr spec_stats) (Inr no_documents) (Inr spec_health)
        empty_dashboard) =
     Some \<lparr>embedding_service_green = False, llm_service_green = False,
           vector_database_green = False\<rparr>"
  using no_documents_ok
    loadDashboardData_health [of spec_health "Inr no_documents" _ "Inr spec_stats" empty_dashboard]
  by (simp add: render_health_def spec_health_def field_def optchain_def js_ge0_def)

end
